theory Spec2Isabelle
  imports Complex_Main
begin

section \<open>The values of the host language\<close>

text \<open>
  \<open>getMLRiskScore\<close> (src/api/api.ts, lines 101 to 501) takes \<open>params: any\<close> and
  compares its elements with \<open>==\<close>, \<open><\<close> and \<open>>\<close> against string and number
  literals, so the coercions of these operators are part of what the function computes.
  The parameters are a sequence of primitives: undefined (also what an index past the
  end reads), null, a boolean, a number or a string.

  A Number is NaN, an infinity or a finite value. A finite value is modelled by the real
  number it denotes: the order and the equality of Numbers are those of the reals, and
  equal literals denote equal values. The rounding of a decimal to the nearest
  representable value is left out; it could only matter for a string spelled with more
  digits than a Number holds, and the properties below are either stated for elements
  that are Numbers or hold whatever value a string converts to. A string is a list of
  characters, one character per code unit below 256.
\<close>

datatype jsnum = NaN | NegInf | Fin real | PosInf

datatype jsval = JUndefined | JNull | JBool bool | JNum jsnum | JStr string

text \<open>Number::equal and Number::lessThan; the latter is undefined (None) on NaN.\<close>

fun Number_equal :: "jsnum \<Rightarrow> jsnum \<Rightarrow> bool" where
  "Number_equal NaN y = False"
| "Number_equal x NaN = False"
| "Number_equal x y = (x = y)"

fun Number_lessThan :: "jsnum \<Rightarrow> jsnum \<Rightarrow> bool option" where
  "Number_lessThan NaN y = None"
| "Number_lessThan x NaN = None"
| "Number_lessThan (Fin a) (Fin b) = Some (a < b)"
| "Number_lessThan PosInf y = Some False"
| "Number_lessThan x NegInf = Some False"
| "Number_lessThan NegInf y = Some True"
| "Number_lessThan x PosInf = Some True"

subsection \<open>StringToNumber\<close>

text \<open>
  The grammar StringNumericLiteral: optional white space around a signed decimal
  literal (digits, fraction, exponent, or \<open>Infinity\<close>) or an unsigned binary, octal or
  hexadecimal integer literal. The empty string is 0; a string outside the grammar is NaN.
\<close>

definition StrWhiteSpaceChar :: "char \<Rightarrow> bool" where
  "StrWhiteSpaceChar c =
     (c \<in> set [CHR 0x09, CHR 0x0A, CHR 0x0B, CHR 0x0C, CHR 0x0D, CHR 0x20, CHR 0xA0])"

definition TrimString :: "string \<Rightarrow> string" where
  "TrimString s = rev (dropWhile StrWhiteSpaceChar (rev (dropWhile StrWhiteSpaceChar s)))"

definition digitValue :: "char \<Rightarrow> nat option" where
  "digitValue = map_of
     [(CHR ''0'', 0), (CHR ''1'', 1), (CHR ''2'', 2), (CHR ''3'', 3), (CHR ''4'', 4),
      (CHR ''5'', 5), (CHR ''6'', 6), (CHR ''7'', 7), (CHR ''8'', 8), (CHR ''9'', 9),
      (CHR ''a'', 10), (CHR ''b'', 11), (CHR ''c'', 12), (CHR ''d'', 13), (CHR ''e'', 14),
      (CHR ''f'', 15), (CHR ''A'', 10), (CHR ''B'', 11), (CHR ''C'', 12), (CHR ''D'', 13),
      (CHR ''E'', 14), (CHR ''F'', 15)]"

definition isDigit :: "nat \<Rightarrow> char \<Rightarrow> bool" where
  "isDigit radix c = (case digitValue c of None \<Rightarrow> False | Some v \<Rightarrow> v < radix)"

text \<open>The value of a non-empty run of digits in the given radix.\<close>

definition DigitsMV :: "nat \<Rightarrow> string \<Rightarrow> nat option" where
  "DigitsMV radix ds =
     (if ds \<noteq> [] \<and> list_all (isDigit radix) ds
      then Some (foldl (\<lambda>a c. a * radix + the (digitValue c)) 0 ds)
      else None)"

definition SignedInteger :: "string \<Rightarrow> int option" where
  "SignedInteger s =
     (case s of
        [] \<Rightarrow> None
      | c # ds \<Rightarrow>
          if c = CHR ''+'' then map_option int (DigitsMV 10 ds)
          else if c = CHR ''-'' then map_option (\<lambda>n. - int n) (DigitsMV 10 ds)
          else map_option int (DigitsMV 10 s))"

definition isExponentIndicator :: "char \<Rightarrow> bool" where
  "isExponentIndicator c = (c = CHR ''e'' \<or> c = CHR ''E'')"

text \<open>
  The digits before the exponent indicator: \<open>DecimalDigits\<close>, \<open>DecimalDigits .\<close>,
  \<open>DecimalDigits . DecimalDigits\<close> or \<open>. DecimalDigits\<close>.
\<close>

definition DecimalMantissa :: "string \<Rightarrow> real option" where
  "DecimalMantissa m =
     (let i = takeWhile (\<lambda>c. c \<noteq> CHR ''.'') m;
          f = dropWhile (\<lambda>c. c \<noteq> CHR ''.'') m
      in if f = [] then map_option real (DigitsMV 10 i)
         else if tl f = [] then map_option real (DigitsMV 10 i)
         else (case DigitsMV 10 (tl f) of
                 None \<Rightarrow> None
               | Some n \<Rightarrow>
                   (if i = [] then Some (real n / 10 ^ length (tl f))
                    else map_option (\<lambda>k. real k + real n / 10 ^ length (tl f))
                           (DigitsMV 10 i))))"

definition StrUnsignedDecimalLiteral :: "string \<Rightarrow> jsnum" where
  "StrUnsignedDecimalLiteral s =
     (if s = ''Infinity'' then PosInf
      else
        let m = takeWhile (\<lambda>c. \<not> isExponentIndicator c) s;
            x = dropWhile (\<lambda>c. \<not> isExponentIndicator c) s;
            ex = (if x = [] then Some 0 else SignedInteger (tl x))
        in (case (DecimalMantissa m, ex) of
              (Some a, Some e) \<Rightarrow>
                Fin (if 0 \<le> e then a * 10 ^ nat e else a / 10 ^ nat (- e))
            | _ \<Rightarrow> NaN))"

definition negate :: "jsnum \<Rightarrow> jsnum" where
  "negate x = (case x of NaN \<Rightarrow> NaN | NegInf \<Rightarrow> PosInf | PosInf \<Rightarrow> NegInf | Fin a \<Rightarrow> Fin (- a))"

definition NonDecimalIntegerLiteral :: "nat \<Rightarrow> string \<Rightarrow> jsnum" where
  "NonDecimalIntegerLiteral radix ds =
     (case DigitsMV radix ds of None \<Rightarrow> NaN | Some n \<Rightarrow> Fin (real n))"

definition StrNumericLiteral :: "string \<Rightarrow> jsnum" where
  "StrNumericLiteral s =
     (let p = take 2 s
      in if p = ''0b'' \<or> p = ''0B'' then NonDecimalIntegerLiteral 2 (drop 2 s)
         else if p = ''0o'' \<or> p = ''0O'' then NonDecimalIntegerLiteral 8 (drop 2 s)
         else if p = ''0x'' \<or> p = ''0X'' then NonDecimalIntegerLiteral 16 (drop 2 s)
         else if take 1 s = ''+'' then StrUnsignedDecimalLiteral (drop 1 s)
         else if take 1 s = ''-'' then negate (StrUnsignedDecimalLiteral (drop 1 s))
         else StrUnsignedDecimalLiteral s)"

definition StringToNumber :: "string \<Rightarrow> jsnum" where
  "StringToNumber s =
     (let t = TrimString s in if t = [] then Fin 0 else StrNumericLiteral t)"

subsection \<open>ToNumber, loose equality and the relational operators\<close>

fun ToNumber :: "jsval \<Rightarrow> jsnum" where
  "ToNumber JUndefined = NaN"
| "ToNumber JNull = Fin 0"
| "ToNumber (JBool b) = (if b then Fin 1 else Fin 0)"
| "ToNumber (JNum n) = n"
| "ToNumber (JStr s) = StringToNumber s"

text \<open>
  IsLooselyEqual (\<open>x == y\<close>) on primitives: values of one type are compared strictly,
  null and undefined equal each other and nothing else, a boolean is converted to a
  number first, and a number is compared with the numeric value of a string.
\<close>

fun IsLooselyEqual :: "jsval \<Rightarrow> jsval \<Rightarrow> bool" where
  "IsLooselyEqual JUndefined y = (y = JUndefined \<or> y = JNull)"
| "IsLooselyEqual JNull y = (y = JUndefined \<or> y = JNull)"
| "IsLooselyEqual x JUndefined = False"
| "IsLooselyEqual x JNull = False"
| "IsLooselyEqual (JStr s) (JStr t) = (s = t)"
| "IsLooselyEqual (JBool a) (JBool b) = (a = b)"
| "IsLooselyEqual x y = Number_equal (ToNumber x) (ToNumber y)"

text \<open>
  IsLessThan (\<open>x < y\<close>): two strings are compared by code units, anything else
  numerically. The result is undefined (None) when an operand converts to NaN.
\<close>

fun StringLessThan :: "string \<Rightarrow> string \<Rightarrow> bool" where
  "StringLessThan [] [] = False"
| "StringLessThan [] (d # t) = True"
| "StringLessThan (c # s) [] = False"
| "StringLessThan (c # s) (d # t) =
     (if c = d then StringLessThan s t else (of_char c :: nat) < of_char d)"

fun IsLessThan :: "jsval \<Rightarrow> jsval \<Rightarrow> bool option" where
  "IsLessThan (JStr s) (JStr t) = Some (StringLessThan s t)"
| "IsLessThan x y = Number_lessThan (ToNumber x) (ToNumber y)"

text \<open>The operators \<open><\<close> and \<open>>\<close>: an undefined comparison is false.\<close>

definition js_lt :: "jsval \<Rightarrow> jsval \<Rightarrow> bool" where
  "js_lt x y = (IsLessThan x y = Some True)"

definition js_gt :: "jsval \<Rightarrow> jsval \<Rightarrow> bool" where
  "js_gt x y = (IsLessThan y x = Some True)"

text \<open>Reading an element of a sequence: an index past the end reads undefined.\<close>

definition idx :: "jsval list \<Rightarrow> nat \<Rightarrow> jsval" where
  "idx params i = (if i < length params then params ! i else JUndefined)"

section \<open>The feature encoder of \<open>getMLRiskScore\<close>\<close>

text \<open>
  The object \<open>predictionVariables\<close> has a fixed set of properties, written out in
  its literal (lines 109 to 149); the conversions assign to these and to no other. It is
  modelled as a function from the names of the properties to their values, and an
  assignment \<open>predictionVariables.X = 1\<close> updates the function at \<open>X\<close>.
\<close>

datatype feature =
    AgeAtTest | MonthsSinceLastTest | GenderMale
  | GenderFemale | KeyPopulationTypeGP | KeyPopulationTypeSW
  | MaritalStatusMarried | MaritalStatusDivorced | MaritalStatusPolygamous
  | MaritalStatusWidowed | MaritalStatusSingle | MaritalStatusMinor
  | PatientDisabledNo | PatientDisabledDisabled | EverTestedForHIVYes
  | EverTestedForHivNo | ClientTestedAsIndividual | ClientTestedAsCouple
  | EntryPointVCT | EntryPointOPD | EntryPointMTC
  | EntryPointIPD | EntryPointMOBILE | EntryPointOther
  | EntryPointHB | EntryPointPEDS | EntryPointVMMC
  | EntryPointTB | EntryPointCCC | EntryPointPNS
  | TestingStrategyVCT | TestingStrategyHB | TestingStrategyMOBILE
  | TestingStrategyHP | TestingStrategyNP | TBScreeningNoPresumedTB
  | TBScreeningPresumedTB | ClientSelfTestedNo | ClientSelfTestedYes

type_synonym FeatureVector = "feature \<Rightarrow> jsval"

abbreviation Num :: "real \<Rightarrow> jsval" where
  "Num x \<equiv> JNum (Fin x)"

text \<open>The object literal, with the three properties that are computed in place.\<close>

fun predictionVariables_literal :: "jsval list \<Rightarrow> FeatureVector" where
  "predictionVariables_literal params AgeAtTest = Num 0"
| "predictionVariables_literal params MonthsSinceLastTest =
     (if js_gt (idx params 6) (Num 0) then idx params 6 else Num 0)"
| "predictionVariables_literal params GenderMale =
     (if IsLooselyEqual (idx params 3) (JStr ''M'') then Num 1 else Num 0)"
| "predictionVariables_literal params GenderFemale =
     (if IsLooselyEqual (idx params 3) (JStr ''F'') then Num 1 else Num 0)"
| "predictionVariables_literal params KeyPopulationTypeGP = Num 0"
| "predictionVariables_literal params KeyPopulationTypeSW = Num 0"
| "predictionVariables_literal params MaritalStatusMarried = Num 0"
| "predictionVariables_literal params MaritalStatusDivorced = Num 0"
| "predictionVariables_literal params MaritalStatusPolygamous = Num 0"
| "predictionVariables_literal params MaritalStatusWidowed = Num 0"
| "predictionVariables_literal params MaritalStatusSingle = Num 0"
| "predictionVariables_literal params MaritalStatusMinor = Num 0"
| "predictionVariables_literal params PatientDisabledNo = Num 0"
| "predictionVariables_literal params PatientDisabledDisabled = Num 0"
| "predictionVariables_literal params EverTestedForHIVYes = Num 0"
| "predictionVariables_literal params EverTestedForHivNo = Num 0"
| "predictionVariables_literal params ClientTestedAsIndividual = Num 0"
| "predictionVariables_literal params ClientTestedAsCouple = Num 0"
| "predictionVariables_literal params EntryPointVCT = Num 0"
| "predictionVariables_literal params EntryPointOPD = Num 0"
| "predictionVariables_literal params EntryPointMTC = Num 0"
| "predictionVariables_literal params EntryPointIPD = Num 0"
| "predictionVariables_literal params EntryPointMOBILE = Num 0"
| "predictionVariables_literal params EntryPointOther = Num 0"
| "predictionVariables_literal params EntryPointHB = Num 0"
| "predictionVariables_literal params EntryPointPEDS = Num 0"
| "predictionVariables_literal params EntryPointVMMC = Num 0"
| "predictionVariables_literal params EntryPointTB = Num 0"
| "predictionVariables_literal params EntryPointCCC = Num 0"
| "predictionVariables_literal params EntryPointPNS = Num 0"
| "predictionVariables_literal params TestingStrategyVCT = Num 0"
| "predictionVariables_literal params TestingStrategyHB = Num 0"
| "predictionVariables_literal params TestingStrategyMOBILE = Num 0"
| "predictionVariables_literal params TestingStrategyHP = Num 0"
| "predictionVariables_literal params TestingStrategyNP = Num 0"
| "predictionVariables_literal params TBScreeningNoPresumedTB = Num 0"
| "predictionVariables_literal params TBScreeningPresumedTB = Num 0"
| "predictionVariables_literal params ClientSelfTestedNo = Num 0"
| "predictionVariables_literal params ClientSelfTestedYes = Num 0"

text \<open>convert marital status (lines 151 to 166)\<close>

definition convertMaritalStatus :: "jsval list \<Rightarrow> FeatureVector \<Rightarrow> FeatureVector" where
  "convertMaritalStatus params pv =
     (if IsLooselyEqual (idx params 5) (JStr ''5555AAAAAAAAAAAAAAAAAAAAAAAAAAAAAAAA'')
       then pv(MaritalStatusMarried := Num 1)
     else if IsLooselyEqual (idx params 5) (JStr ''159715AAAAAAAAAAAAAAAAAAAAAAAAAAAAAA'')
       then pv(MaritalStatusPolygamous := Num 1)
     else if IsLooselyEqual (idx params 5) (JStr ''1058AAAAAAAAAAAAAAAAAAAAAAAAAAAAAAAA'')
       then pv(MaritalStatusDivorced := Num 1)
     else if IsLooselyEqual (idx params 5) (JStr ''1059AAAAAAAAAAAAAAAAAAAAAAAAAAAAAAAA'')
       then pv(MaritalStatusWidowed := Num 1)
     else if IsLooselyEqual (idx params 5) (JStr ''1057AAAAAAAAAAAAAAAAAAAAAAAAAAAAAAAA'')
       then pv(MaritalStatusSingle := Num 1)
     else pv)"

text \<open>The age test (lines 168 to 170).\<close>

definition convertMinor :: "jsval list \<Rightarrow> FeatureVector \<Rightarrow> FeatureVector" where
  "convertMinor params pv =
     (if js_lt (idx params 0) (Num 15) then pv(MaritalStatusMinor := Num 1) else pv)"

text \<open>convert population type (lines 172 to 177)\<close>

definition convertPopulationType :: "jsval list \<Rightarrow> FeatureVector \<Rightarrow> FeatureVector" where
  "convertPopulationType params pv =
     (if IsLooselyEqual (idx params 7) (JStr ''164928AAAAAAAAAAAAAAAAAAAAAAAAAAAAAA'')
       then pv(KeyPopulationTypeGP := Num 1)
     else if IsLooselyEqual (idx params 7) (JStr ''164929AAAAAAAAAAAAAAAAAAAAAAAAAAAAAA'')
       then pv(KeyPopulationTypeSW := Num 1)
     else pv)"

text \<open>convert disability status (lines 179 to 184)\<close>

definition convertDisabilityStatus :: "jsval list \<Rightarrow> FeatureVector \<Rightarrow> FeatureVector" where
  "convertDisabilityStatus params pv =
     (if IsLooselyEqual (idx params 4) (JStr ''1066AAAAAAAAAAAAAAAAAAAAAAAAAAAAAAAA'')
       then pv(PatientDisabledNo := Num 1)
     else if IsLooselyEqual (idx params 4) (JStr ''1065AAAAAAAAAAAAAAAAAAAAAAAAAAAAAAAA'')
       then pv(PatientDisabledDisabled := Num 1)
     else pv)"

text \<open>convert ever tested for hiv status (lines 186 to 191)\<close>

definition convertEverTested :: "jsval list \<Rightarrow> FeatureVector \<Rightarrow> FeatureVector" where
  "convertEverTested params pv =
     (if IsLooselyEqual (idx params 2) (JStr ''1065AAAAAAAAAAAAAAAAAAAAAAAAAAAAAAAA'')
       then pv(EverTestedForHIVYes := Num 1)
     else if IsLooselyEqual (idx params 2) (JStr ''1066AAAAAAAAAAAAAAAAAAAAAAAAAAAAAAAA'')
       then pv(EverTestedForHivNo := Num 1)
     else pv)"

text \<open>converter for tested as, individual or couple (lines 193 to 198)\<close>

definition convertTestedAs :: "jsval list \<Rightarrow> FeatureVector \<Rightarrow> FeatureVector" where
  "convertTestedAs params pv =
     (if IsLooselyEqual (idx params 2) (JStr ''164957AAAAAAAAAAAAAAAAAAAAAAAAAAAAAA'')
       then pv(ClientTestedAsIndividual := Num 1)
     else if IsLooselyEqual (idx params 2) (JStr ''164958AAAAAAAAAAAAAAAAAAAAAAAAAAAAAA'')
       then pv(ClientTestedAsCouple := Num 1)
     else pv)"

text \<open>convert entry point (lines 200 to 232); the first test is against the number 159940\<close>

definition convertEntryPoint :: "jsval list \<Rightarrow> FeatureVector \<Rightarrow> FeatureVector" where
  "convertEntryPoint params pv =
     (if IsLooselyEqual (idx params 1) (Num 159940)
       then pv(EntryPointVCT := Num 1)
     else if IsLooselyEqual (idx params 1) (JStr ''160542AAAAAAAAAAAAAAAAAAAAAAAAAAAAAA'')
       then pv(EntryPointOPD := Num 1)
     else if IsLooselyEqual (idx params 1) (JStr ''160456AAAAAAAAAAAAAAAAAAAAAAAAAAAAAA'')
       then pv(EntryPointMTC := Num 1)
     else if IsLooselyEqual (idx params 1) (JStr ''5485AAAAAAAAAAAAAAAAAAAAAAAAAAAAAAAA'')
       then pv(EntryPointIPD := Num 1)
     else if IsLooselyEqual (idx params 1) (JStr ''159939AAAAAAAAAAAAAAAAAAAAAAAAAAAAAA'')
       then pv(EntryPointMOBILE := Num 1)
     else if IsLooselyEqual (idx params 1) (JStr ''159938AAAAAAAAAAAAAAAAAAAAAAAAAAAAAA'')
       then pv(EntryPointHB := Num 1)
     else if IsLooselyEqual (idx params 1) (JStr ''162181AAAAAAAAAAAAAAAAAAAAAAAAAAAAAA'')
       then pv(EntryPointPEDS := Num 1)
     else if IsLooselyEqual (idx params 1) (JStr ''5622AAAAAAAAAAAAAAAAAAAAAAAAAAAAAAAA'')
       then pv(EntryPointOther := Num 1)
     else if IsLooselyEqual (idx params 1) (JStr ''162223AAAAAAAAAAAAAAAAAAAAAAAAAAAAAA'')
       then pv(EntryPointVMMC := Num 1)
     else if IsLooselyEqual (idx params 1) (JStr ''160541AAAAAAAAAAAAAAAAAAAAAAAAAAAAAA'')
       then pv(EntryPointTB := Num 1)
     else pv)"

text \<open>convert strategy (lines 234 to 254)\<close>

definition convertStrategy :: "jsval list \<Rightarrow> FeatureVector \<Rightarrow> FeatureVector" where
  "convertStrategy params pv =
     (if IsLooselyEqual (idx params 10) (JStr ''159938AAAAAAAAAAAAAAAAAAAAAAAAAAAAAA'')
       then pv(TestingStrategyHB := Num 1)
     else if IsLooselyEqual (idx params 10) (JStr ''159939AAAAAAAAAAAAAAAAAAAAAAAAAAAAAA'')
       then pv(TestingStrategyMOBILE := Num 1)
     else if IsLooselyEqual (idx params 10) (JStr ''164163AAAAAAAAAAAAAAAAAAAAAAAAAAAAAA'')
       then pv(TestingStrategyHP := Num 1)
     else if IsLooselyEqual (idx params 10) (JStr ''164953AAAAAAAAAAAAAAAAAAAAAAAAAAAAAA'')
       then pv(TestingStrategyNP := Num 1)
     else if (IsLooselyEqual (idx params 10) (JStr ''164954AAAAAAAAAAAAAAAAAAAAAAAAAAAAAA'') \<or>
         IsLooselyEqual (idx params 10) (JStr ''164955AAAAAAAAAAAAAAAAAAAAAAAAAAAAAA''))
       then pv(TestingStrategyVCT := Num 1)
     else pv)"

text \<open>convert HIV self test (lines 256 to 261)\<close>

definition convertSelfTest :: "jsval list \<Rightarrow> FeatureVector \<Rightarrow> FeatureVector" where
  "convertSelfTest params pv =
     (if IsLooselyEqual (idx params 8) (JStr ''1066AAAAAAAAAAAAAAAAAAAAAAAAAAAAAAAA'')
       then pv(ClientSelfTestedNo := Num 1)
     else if IsLooselyEqual (idx params 8) (JStr ''1065AAAAAAAAAAAAAAAAAAAAAAAAAAAAAAAA'')
       then pv(ClientSelfTestedYes := Num 1)
     else pv)"

text \<open>convert TB screening (lines 263 to 271)\<close>

definition convertTBScreening :: "jsval list \<Rightarrow> FeatureVector \<Rightarrow> FeatureVector" where
  "convertTBScreening params pv =
     (if (IsLooselyEqual (idx params 9) (JStr ''1660AAAAAAAAAAAAAAAAAAAAAAAAAAAAAAAA'') \<or>
         IsLooselyEqual (idx params 9) (JStr ''160737AAAAAAAAAAAAAAAAAAAAAAAAAAAAAA''))
       then pv(TBScreeningNoPresumedTB := Num 1)
     else if (IsLooselyEqual (idx params 9) (JStr ''142177AAAAAAAAAAAAAAAAAAAAAAAAAAAAAA'') \<or>
         IsLooselyEqual (idx params 9) (JStr ''1111AAAAAAAAAAAAAAAAAAAAAAAAAAAAAAAA''))
       then pv(TBScreeningPresumedTB := Num 1)
     else pv)"

text \<open>The object as it stands once all the conversions have run, in the order of the source.\<close>

definition predictionVariables :: "jsval list \<Rightarrow> FeatureVector" where
  "predictionVariables params =
     convertTBScreening params
      (convertSelfTest params
        (convertStrategy params
          (convertEntryPoint params
            (convertTestedAs params
              (convertEverTested params
                (convertDisabilityStatus params
                  (convertPopulationType params
                    (convertMinor params
                      (convertMaritalStatus params
                        (predictionVariables_literal params))))))))))"

section \<open>The request to the scoring endpoint\<close>

record ModelConfigs =
  modelId :: string
  encounterDate :: string
  facilityId :: string
  debug :: string

text \<open>
  The value handed to \<open>JSON.stringify\<close> for the body of the request: the model
  configuration and the variables of the model, a list of names and numbers in the order
  in which the object literal writes them.
\<close>

record ScoringPayload =
  payloadModelConfigs :: ModelConfigs
  variableValues :: "(string \<times> int) list"

text \<open>
  \<open>modelConfigs\<close> (lines 273 to 279): the date is the first ten characters of the
  clock's ISO date, a parameter of the model.
\<close>

definition modelConfigs :: "string \<Rightarrow> ModelConfigs" where
  "modelConfigs mlFormattedDate =
     \<lparr> modelId = ''hts_xgb_1211_jan_2023'',
       encounterDate = mlFormattedDate,
       facilityId = '''',
       debug = ''true'' \<rparr>"

text \<open>
  \<open>mlScoringRequestPayload\<close> (lines 285 to 457). The object literal of the source is
  written where \<open>predictionVariables\<close> and \<open>modelConfigs\<close> are in scope, the two
  arguments of this definition, and reads neither of them.
\<close>

definition mlScoringRequestPayload :: "FeatureVector \<Rightarrow> ModelConfigs \<Rightarrow> ScoringPayload" where
  "mlScoringRequestPayload pv configs =
     \<lparr> payloadModelConfigs =
         \<lparr> modelId = ''hts_xgb_1211_jan_2023'', encounterDate = ''2023-03-15'',
           facilityId = '''', debug = ''true'' \<rparr>,
       variableValues =
           [(''Age'', 17), (''births'', 0), (''pregnancies'', 0), (''literacy'', 0),
            (''poverty'', 0), (''anc'', 0), (''pnc'', 0), (''sba'', 0), (''hiv_prev'', 0),
            (''hiv_count'', 0), (''condom'', 0), (''intercourse'', 0), (''in_union'', 0),
            (''circumcision'', 0), (''partner_away'', 0), (''partner_men'', 0),
            (''partner_women'', 0), (''sti'', 0), (''fb'', 0), (''PopulationTypeGP'', 1),
            (''PopulationTypeKP'', 0), (''PopulationTypePRIORITY'', 0),
            (''KeyPopulationFSW'', 0), (''KeyPopulationMSM'', 0), (''KeyPopulationNR'', 1),
            (''KeyPopulationOther'', 0), (''KeyPopulationPWID'', 0),
            (''PriorityPopulationAGYW'', 0), (''PriorityPopulationFISHERMEN'', 0),
            (''PriorityPopulationNR'', 1), (''PriorityPopulationOTHER'', 0),
            (''DepartmentEMERGENCY'', 0), (''DepartmentIPD'', 1), (''DepartmentOPD'', 0),
            (''DepartmentPMTCT'', 0), (''DepartmentVCT'', 0), (''IsHealthWorkerNO'', 0),
            (''IsHealthWorkerNR'', 1), (''IsHealthWorkerYES'', 0), (''SexuallyActiveNO'', 0),
            (''SexuallyActiveNR'', 1), (''SexuallyActiveYES'', 0), (''NewPartnerNO'', 0),
            (''NewPartnerNR'', 1), (''NewPartnerYES'', 0), (''PartnerHIVStatusNEGATIVE'', 0),
            (''PartnerHIVStatusNR'', 1), (''PartnerHIVStatusPOSITIVE'', 0),
            (''PartnerHIVStatusUNKNOWN'', 0), (''NumberOfPartnersMULTIPLE'', 0),
            (''NumberOfPartnersNR'', 1), (''NumberOfPartnersSINGLE'', 0),
            (''AlcoholSexALWAYS'', 0), (''AlcoholSexNEVER'', 0), (''AlcoholSexNR'', 1),
            (''AlcoholSexSOMETIMES'', 0), (''MoneySexNO'', 0), (''MoneySexNR'', 1),
            (''MoneySexYES'', 0), (''CondomBurstNO'', 0), (''CondomBurstNR'', 1),
            (''CondomBurstYES'', 0), (''UnknownStatusPartnerNO'', 0),
            (''UnknownStatusPartnerNR'', 1), (''UnknownStatusPartnerYES'', 0),
            (''KnownStatusPartnerNO'', 0), (''KnownStatusPartnerNR'', 1),
            (''KnownStatusPartnerYES'', 0), (''PregnantNO'', 0), (''PregnantNR'', 1),
            (''PregnantYES'', 0), (''BreastfeedingMotherNO'', 0), (''BreastfeedingMotherNR'', 1),
            (''BreastfeedingMotherYES'', 0), (''ExperiencedGBVNO'', 0),
            (''ExperiencedGBVYES'', 0), (''CurrentlyOnPrepNO'', 0), (''CurrentlyOnPrepNR'', 0),
            (''CurrentlyOnPrepYES'', 0), (''CurrentlyHasSTINO'', 0), (''CurrentlyHasSTINR'', 0),
            (''CurrentlyHasSTIYES'', 0), (''SharedNeedleNO'', 0), (''SharedNeedleNR'', 1),
            (''SharedNeedleYES'', 0), (''NeedleStickInjuriesNO'', 0),
            (''NeedleStickInjuriesNR'', 1), (''NeedleStickInjuriesYES'', 0),
            (''TraditionalProceduresNO'', 0), (''TraditionalProceduresNR'', 1),
            (''TraditionalProceduresYES'', 0), (''MothersStatusNEGATIVE'', 0),
            (''MothersStatusNR'', 1), (''MothersStatusPOSITIVE'', 0),
            (''MothersStatusUNKNOWN'', 0), (''ReferredForTestingNO'', 0),
            (''ReferredForTestingYES'', 0), (''GenderFEMALE'', 1), (''GenderMALE'', 0),
            (''MaritalStatusDIVORCED'', 0), (''MaritalStatusMARRIED'', 0),
            (''MaritalStatusMINOR'', 0), (''MaritalStatusPOLYGAMOUS'', 1),
            (''MaritalStatusSINGLE'', 0), (''EverTestedForHivNO'', 0),
            (''EverTestedForHivYES'', 1), (''MonthsSinceLastTestLASTSIXMONTHS'', 0),
            (''MonthsSinceLastTestMORETHANTWOYEARS'', 1), (''MonthsSinceLastTestNR'', 0),
            (''MonthsSinceLastTestONETOTWOYEARS'', 0), (''MonthsSinceLastTestSEVENTOTWELVE'', 0),
            (''ClientTestedAsCOUPLE'', 0), (''ClientTestedAsINDIVIDUAL'', 0),
            (''EntryPointIPD'', 0), (''EntryPointOPD'', 0), (''EntryPointOTHER'', 0),
            (''EntryPointPEDIATRIC'', 0), (''EntryPointPMTCT_ANC'', 0),
            (''EntryPointPMTCT_MAT_PNC'', 0), (''EntryPointTB'', 0), (''EntryPointVCT'', 1),
            (''EntryPointVMMC'', 0), (''TestStrategyHB'', 0), (''TestStrategyHP'', 0),
            (''TestStrategyINDEX'', 0), (''TestStrategyMO'', 0), (''TestStrategyNP'', 0),
            (''TestStrategyOTHER'', 0), (''TestStrategySNS'', 0), (''TestStrategyVI'', 0),
            (''TestStrategyVS'', 1), (''TbScreeningCONFIRMEDTB'', 0),
            (''TbScreeningNOPRESUMEDTB'', 0), (''TbScreeningPRESUMEDTB'', 0),
            (''ClientSelfTestedNO'', 1), (''ClientSelfTestedYES'', 0),
            (''CoupleDiscordantNO'', 0), (''CoupleDiscordantNR'', 1),
            (''CoupleDiscordantYES'', 0), (''SEXUALNO'', 0), (''SEXUALYES'', 1),
            (''SOCIALNO'', 1), (''SOCIALYES'', 0), (''NONENO'', 1), (''NONEYES'', 0),
            (''NEEDLE_SHARINGNO'', 1), (''NEEDLE_SHARINGYES'', 0), (''ReceivedPrEPNO'', 1),
            (''ReceivedPrEPYES'', 0), (''ReceivedPEPNO'', 1), (''ReceivedPEPYES'', 0),
            (''ReceivedTBNO'', 1), (''ReceivedTBYES'', 0), (''ReceivedSTINO'', 1),
            (''ReceivedSTIYES'', 0), (''GBVSexualNO'', 1), (''GBVSexualYES'', 0),
            (''GBVPhysicalNO'', 1), (''GBVPhysicalYES'', 0), (''GBVEmotionalNO'', 1),
            (''GBVEmotionalYES'', 0), (''dayofweekFRIDAY'', 0), (''dayofweekMONDAY'', 0),
            (''dayofweekSATURDAY'', 0), (''dayofweekSUNDAY'', 0), (''dayofweekTHURSDAY'', 0),
            (''dayofweekTUESDAY'', 0), (''dayofweekWEDNESDAY'', 1)] \<rparr>"

text \<open>The call of \<open>fetch\<close> (lines 459 to 468); the body is the payload to serialise.\<close>

record Request =
  url :: string
  http_method :: string
  headers :: "(string \<times> string) list"
  body :: ScoringPayload

definition scoringRequest :: "string \<Rightarrow> jsval list \<Rightarrow> Request" where
  "scoringRequest mlFormattedDate params =
     \<lparr> url = ''http://197.248.44.228:8600/openmrs/ws/rest/v1/keml/casefindingscore'',
       http_method = ''POST'',
       headers =
         [(''Accept'', ''application/json''), (''Content-Type'', ''application/json''),
          (''Access-Control-Allow-Origin'', ''*'')],
       body =
         mlScoringRequestPayload (predictionVariables params) (modelConfigs mlFormattedDate) \<rparr>"

section \<open>The response and the risk tiers\<close>

text \<open>
  What \<open>response.json()\<close> resolves to: a JSON document. The members of an object are kept
  in the order of the document; reading a name takes its last occurrence, as the parser
  of the host language does.
\<close>

datatype json =
    JsonNull
  | JsonBool bool
  | JsonNum jsnum
  | JsonStr string
  | JsonArr "json list"
  | JsonObj "(string \<times> json) list"

text \<open>
  The ways the promise of \<open>getMLRiskScore\<close> is rejected: \<open>fetch\<close> fails, the body of
  the response is not JSON, or a property is read from undefined or null.
\<close>

datatype rejection = FetchFailed | SyntaxError | TypeError

text \<open>
  Reading a property of a value that is neither undefined nor null. The source reads the
  three names \<open>result\<close>, \<open>predictions\<close> and \<open>probability(1)\<close>: only an object can
  hold them; on an array, a string, a number or a boolean they read undefined (None).
\<close>

fun Get :: "json \<Rightarrow> string \<Rightarrow> json option" where
  "Get (JsonObj members) name = map_of (rev members) name"
| "Get v name = None"

definition nullish :: "json option \<Rightarrow> bool" where
  "nullish v = (v = None \<or> v = Some JsonNull)"

text \<open>The plain access \<open>base.name\<close> and \<open>base[name]\<close>: a TypeError on undefined and null.\<close>

definition member :: "json option \<Rightarrow> string \<Rightarrow> rejection + json option" where
  "member base name =
     (case base of
        None \<Rightarrow> Inl TypeError
      | Some v \<Rightarrow> if v = JsonNull then Inl TypeError else Inr (Get v name))"

text \<open>\<open>result?.result?.predictions\<close>: each \<open>?.\<close> ends the chain with undefined.\<close>

definition predictions_of :: "json \<Rightarrow> json option" where
  "predictions_of result =
     (if nullish (Some result) then None
      else let r = Get result ''result''
           in if nullish r then None else Get (the r) ''predictions'')"

text \<open>
  \<open>result?.result?.predictions['probability(1)']\<close>: the last access belongs to the chain
  of the second \<open>?.\<close> and is a plain one.
\<close>

definition probability_optional :: "json \<Rightarrow> rejection + json option" where
  "probability_optional result =
     (if nullish (Some result) then Inr None
      else let r = Get result ''result''
           in if nullish r then Inr None
              else member (Get (the r) ''predictions'') ''probability(1)'')"

text \<open>\<open>result.result.predictions['probability(1)']\<close>, without optional chaining.\<close>

definition probability_plain :: "json \<Rightarrow> rejection + json option" where
  "probability_plain result =
     (case member (Some result) ''result'' of
        Inl e \<Rightarrow> Inl e
      | Inr r \<Rightarrow>
          (case member r ''predictions'' of
             Inl e \<Rightarrow> Inl e
           | Inr p \<Rightarrow> member p ''probability(1)''))"

text \<open>ToBoolean, the test of an \<open>if\<close>.\<close>

fun ToBoolean :: "json option \<Rightarrow> bool" where
  "ToBoolean None = False"
| "ToBoolean (Some JsonNull) = False"
| "ToBoolean (Some (JsonBool b)) = b"
| "ToBoolean (Some (JsonNum n)) = (n \<noteq> NaN \<and> n \<noteq> Fin 0)"
| "ToBoolean (Some (JsonStr s)) = (s \<noteq> [])"
| "ToBoolean (Some (JsonArr xs)) = True"
| "ToBoolean (Some (JsonObj members)) = True"

text \<open>
  The numeric value of a JSON value. An array or an object is converted to a string
  first: an object to \<open>[object Object]\<close>, which is no number; an array to its elements
  joined by commas, where null is the empty string. The joined string of two or more
  elements holds a comma and is no number, the empty array gives the empty string, and a
  single element gives its own string, which for a number reads back as that number.
\<close>

fun elementToNumber :: "json \<Rightarrow> jsnum" where
  "elementToNumber JsonNull = Fin 0"
| "elementToNumber (JsonBool b) = NaN"
| "elementToNumber (JsonNum n) = n"
| "elementToNumber (JsonStr s) = StringToNumber s"
| "elementToNumber (JsonArr []) = Fin 0"
| "elementToNumber (JsonArr [x]) = elementToNumber x"
| "elementToNumber (JsonArr (x # y # zs)) = NaN"
| "elementToNumber (JsonObj members) = NaN"

fun ToNumber_json :: "json option \<Rightarrow> jsnum" where
  "ToNumber_json None = NaN"
| "ToNumber_json (Some (JsonBool b)) = (if b then Fin 1 else Fin 0)"
| "ToNumber_json (Some v) = elementToNumber v"

text \<open>
  The comparisons of the source have a number literal on the right, so they are numeric
  whatever the left operand; a read that raises makes the whole test raise.
\<close>

definition gt :: "rejection + json option \<Rightarrow> real \<Rightarrow> rejection + bool" where
  "gt v t = map_sum id (\<lambda>p. Number_lessThan (Fin t) (ToNumber_json p) = Some True) v"

definition lt :: "rejection + json option \<Rightarrow> real \<Rightarrow> rejection + bool" where
  "lt v t = map_sum id (\<lambda>p. Number_lessThan (ToNumber_json p) (Fin t) = Some True) v"

definition le :: "rejection + json option \<Rightarrow> real \<Rightarrow> rejection + bool" where
  "le v t = map_sum id (\<lambda>p. Number_lessThan (Fin t) (ToNumber_json p) = Some False) v"

text \<open>\<open>if (c) return a; rest\<close> and \<open>c && d\<close>, where evaluating a test may raise.\<close>

definition ifReturn :: "rejection + bool \<Rightarrow> string \<Rightarrow> rejection + string \<Rightarrow> rejection + string" where
  "ifReturn c a rest = (case c of Inl e \<Rightarrow> Inl e | Inr b \<Rightarrow> if b then Inr a else rest)"

definition andAlso :: "rejection + bool \<Rightarrow> rejection + bool \<Rightarrow> rejection + bool" where
  "andAlso c d = (case c of Inl e \<Rightarrow> Inl e | Inr b \<Rightarrow> if b then d else Inr False)"

definition lowRiskThreshold :: real where
  "lowRiskThreshold = 0.002625179"

definition mediumRiskThreshold :: real where
  "mediumRiskThreshold = 0.010638781"

definition highRiskThreshold :: real where
  "highRiskThreshold = 0.028924102"

text \<open>The function given to \<open>then\<close> (lines 474 to 500).\<close>

definition thenResult :: "json \<Rightarrow> rejection + string" where
  "thenResult result =
     (if ToBoolean (predictions_of result) then
        ifReturn (gt (probability_optional result) highRiskThreshold)
          ''Client has a very high probability of a HIV positive test result. Testing is strongly recommended''
        (ifReturn
          (andAlso (lt (probability_optional result) highRiskThreshold)
                   (gt (probability_plain result) mediumRiskThreshold))
          ''Client has a high probability of a HIV positive test result. Testing is strongly recommended''
        (ifReturn (gt (probability_optional result) lowRiskThreshold)
          ''Client has a medium probability of a HIV positive test result. Testing is recommended''
        (ifReturn (le (probability_optional result) lowRiskThreshold)
          ''Client has a low probability of a HIV positive test result. Testing may not be recommended''
          (Inr ''No results found''))))
      else Inr ''No results found'')"

text \<open>
  \<open>getMLRiskScore\<close>. The scoring endpoint is a parameter: what \<open>fetch\<close> and
  \<open>response.json()\<close> give for a request, a rejection or the parsed document. So is the
  date of the clock. The result is the request that was sent and what the promise settles
  to. The calls of \<open>console.log\<close> are left out.
\<close>

definition getMLRiskScore ::
  "(Request \<Rightarrow> rejection + json) \<Rightarrow> string \<Rightarrow> jsval list \<Rightarrow> Request \<times> (rejection + string)" where
  "getMLRiskScore endpoint mlFormattedDate params =
     (let request = scoringRequest mlFormattedDate params
      in (request,
          case endpoint request of
            Inl e \<Rightarrow> Inl e
          | Inr result \<Rightarrow> thenResult result))"

section \<open>Notions used to state the properties\<close>

text \<open>
  The indicator groups of the encoder, read off the conversions: the position of the
  element of the parameters that a group is set from, the literals its rules compare
  that element with, and the properties of the group. The marital-status group holds
  the five properties set from the marital-status code; \<open>MaritalStatusMinor\<close> is set
  from the age and stands apart.
\<close>

definition indicator_groups :: "(nat \<times> jsval list \<times> feature list) list" where
  "indicator_groups =
     [(3, [JStr ''M'', JStr ''F''], [GenderMale, GenderFemale]),
      (5, [JStr ''5555AAAAAAAAAAAAAAAAAAAAAAAAAAAAAAAA'',
           JStr ''159715AAAAAAAAAAAAAAAAAAAAAAAAAAAAAA'',
           JStr ''1058AAAAAAAAAAAAAAAAAAAAAAAAAAAAAAAA'',
           JStr ''1059AAAAAAAAAAAAAAAAAAAAAAAAAAAAAAAA'',
           JStr ''1057AAAAAAAAAAAAAAAAAAAAAAAAAAAAAAAA''],
          [MaritalStatusMarried, MaritalStatusPolygamous, MaritalStatusDivorced,
           MaritalStatusWidowed, MaritalStatusSingle]),
      (7, [JStr ''164928AAAAAAAAAAAAAAAAAAAAAAAAAAAAAA'',
           JStr ''164929AAAAAAAAAAAAAAAAAAAAAAAAAAAAAA''],
          [KeyPopulationTypeGP, KeyPopulationTypeSW]),
      (4, [JStr ''1066AAAAAAAAAAAAAAAAAAAAAAAAAAAAAAAA'',
           JStr ''1065AAAAAAAAAAAAAAAAAAAAAAAAAAAAAAAA''],
          [PatientDisabledNo, PatientDisabledDisabled]),
      (2, [JStr ''1065AAAAAAAAAAAAAAAAAAAAAAAAAAAAAAAA'',
           JStr ''1066AAAAAAAAAAAAAAAAAAAAAAAAAAAAAAAA''],
          [EverTestedForHIVYes, EverTestedForHivNo]),
      (2, [JStr ''164957AAAAAAAAAAAAAAAAAAAAAAAAAAAAAA'',
           JStr ''164958AAAAAAAAAAAAAAAAAAAAAAAAAAAAAA''],
          [ClientTestedAsIndividual, ClientTestedAsCouple]),
      (1, [Num 159940,
           JStr ''160542AAAAAAAAAAAAAAAAAAAAAAAAAAAAAA'',
           JStr ''160456AAAAAAAAAAAAAAAAAAAAAAAAAAAAAA'',
           JStr ''5485AAAAAAAAAAAAAAAAAAAAAAAAAAAAAAAA'',
           JStr ''159939AAAAAAAAAAAAAAAAAAAAAAAAAAAAAA'',
           JStr ''159938AAAAAAAAAAAAAAAAAAAAAAAAAAAAAA'',
           JStr ''162181AAAAAAAAAAAAAAAAAAAAAAAAAAAAAA'',
           JStr ''5622AAAAAAAAAAAAAAAAAAAAAAAAAAAAAAAA'',
           JStr ''162223AAAAAAAAAAAAAAAAAAAAAAAAAAAAAA'',
           JStr ''160541AAAAAAAAAAAAAAAAAAAAAAAAAAAAAA''],
          [EntryPointVCT, EntryPointOPD, EntryPointMTC, EntryPointIPD, EntryPointMOBILE,
           EntryPointOther, EntryPointHB, EntryPointPEDS, EntryPointVMMC, EntryPointTB,
           EntryPointCCC, EntryPointPNS]),
      (10, [JStr ''159938AAAAAAAAAAAAAAAAAAAAAAAAAAAAAA'',
            JStr ''159939AAAAAAAAAAAAAAAAAAAAAAAAAAAAAA'',
            JStr ''164163AAAAAAAAAAAAAAAAAAAAAAAAAAAAAA'',
            JStr ''164953AAAAAAAAAAAAAAAAAAAAAAAAAAAAAA'',
            JStr ''164954AAAAAAAAAAAAAAAAAAAAAAAAAAAAAA'',
            JStr ''164955AAAAAAAAAAAAAAAAAAAAAAAAAAAAAA''],
           [TestingStrategyVCT, TestingStrategyHB, TestingStrategyMOBILE, TestingStrategyHP,
            TestingStrategyNP]),
      (9, [JStr ''1660AAAAAAAAAAAAAAAAAAAAAAAAAAAAAAAA'',
           JStr ''160737AAAAAAAAAAAAAAAAAAAAAAAAAAAAAA'',
           JStr ''142177AAAAAAAAAAAAAAAAAAAAAAAAAAAAAA'',
           JStr ''1111AAAAAAAAAAAAAAAAAAAAAAAAAAAAAAAA''],
          [TBScreeningNoPresumedTB, TBScreeningPresumedTB]),
      (8, [JStr ''1066AAAAAAAAAAAAAAAAAAAAAAAAAAAAAAAA'',
           JStr ''1065AAAAAAAAAAAAAAAAAAAAAAAAAAAAAAAA''],
          [ClientSelfTestedNo, ClientSelfTestedYes])]"

text \<open>
  A group of an encoded object is well formed when each of its properties is 0 or 1,
  at most one of them is 1, and all of them are 0 when the element of the group matches
  none of the group's literals.
\<close>

definition group_encoded :: "jsval list \<Rightarrow> FeatureVector \<Rightarrow> nat \<times> jsval list \<times> feature list \<Rightarrow> bool" where
  "group_encoded params pv g =
     (case g of (k, codes, names) \<Rightarrow>
        list_all (\<lambda>name. pv name = Num 0 \<or> pv name = Num 1) names \<and>
        length (filter (\<lambda>name. pv name = Num 1) names) \<le> 1 \<and>
        (list_all (\<lambda>c. \<not> IsLooselyEqual (idx params k) c) codes \<longrightarrow>
           list_all (\<lambda>name. pv name = Num 0) names))"

text \<open>
  The document a scoring endpoint answers with when it predicts the probability \<open>p\<close>:
  the number sits at \<open>result.predictions['probability(1)']\<close>, the path the source reads.
\<close>

definition scoringResult :: "real \<Rightarrow> json" where
  "scoringResult p =
     JsonObj [(''result'',
       JsonObj [(''predictions'', JsonObj [(''probability(1)'', JsonNum (Fin p))])])]"

section \<open>Loose equality against the literals of the source\<close>

lemma Number_equal_NaN_right: "Number_equal x NaN = False"
  by (cases x) simp_all

lemma IsLooselyEqual_code:
  "StringToNumber c = NaN \<Longrightarrow> IsLooselyEqual x (JStr c) = (x = JStr c)"
  by (cases x) (auto simp: Number_equal_NaN_right)

lemma code_literals_NaN:
  "StringToNumber ''M'' = NaN"
  "StringToNumber ''F'' = NaN"
  "StringToNumber ''5555AAAAAAAAAAAAAAAAAAAAAAAAAAAAAAAA'' = NaN"
  "StringToNumber ''159715AAAAAAAAAAAAAAAAAAAAAAAAAAAAAA'' = NaN"
  "StringToNumber ''1058AAAAAAAAAAAAAAAAAAAAAAAAAAAAAAAA'' = NaN"
  "StringToNumber ''1059AAAAAAAAAAAAAAAAAAAAAAAAAAAAAAAA'' = NaN"
  "StringToNumber ''1057AAAAAAAAAAAAAAAAAAAAAAAAAAAAAAAA'' = NaN"
  "StringToNumber ''164928AAAAAAAAAAAAAAAAAAAAAAAAAAAAAA'' = NaN"
  "StringToNumber ''164929AAAAAAAAAAAAAAAAAAAAAAAAAAAAAA'' = NaN"
  "StringToNumber ''1066AAAAAAAAAAAAAAAAAAAAAAAAAAAAAAAA'' = NaN"
  "StringToNumber ''1065AAAAAAAAAAAAAAAAAAAAAAAAAAAAAAAA'' = NaN"
  "StringToNumber ''164957AAAAAAAAAAAAAAAAAAAAAAAAAAAAAA'' = NaN"
  "StringToNumber ''164958AAAAAAAAAAAAAAAAAAAAAAAAAAAAAA'' = NaN"
  "StringToNumber ''160542AAAAAAAAAAAAAAAAAAAAAAAAAAAAAA'' = NaN"
  "StringToNumber ''160456AAAAAAAAAAAAAAAAAAAAAAAAAAAAAA'' = NaN"
  "StringToNumber ''5485AAAAAAAAAAAAAAAAAAAAAAAAAAAAAAAA'' = NaN"
  "StringToNumber ''159939AAAAAAAAAAAAAAAAAAAAAAAAAAAAAA'' = NaN"
  "StringToNumber ''159938AAAAAAAAAAAAAAAAAAAAAAAAAAAAAA'' = NaN"
  "StringToNumber ''162181AAAAAAAAAAAAAAAAAAAAAAAAAAAAAA'' = NaN"
  "StringToNumber ''5622AAAAAAAAAAAAAAAAAAAAAAAAAAAAAAAA'' = NaN"
  "StringToNumber ''162223AAAAAAAAAAAAAAAAAAAAAAAAAAAAAA'' = NaN"
  "StringToNumber ''160541AAAAAAAAAAAAAAAAAAAAAAAAAAAAAA'' = NaN"
  "StringToNumber ''164163AAAAAAAAAAAAAAAAAAAAAAAAAAAAAA'' = NaN"
  "StringToNumber ''164953AAAAAAAAAAAAAAAAAAAAAAAAAAAAAA'' = NaN"
  "StringToNumber ''164954AAAAAAAAAAAAAAAAAAAAAAAAAAAAAA'' = NaN"
  "StringToNumber ''164955AAAAAAAAAAAAAAAAAAAAAAAAAAAAAA'' = NaN"
  "StringToNumber ''1660AAAAAAAAAAAAAAAAAAAAAAAAAAAAAAAA'' = NaN"
  "StringToNumber ''160737AAAAAAAAAAAAAAAAAAAAAAAAAAAAAA'' = NaN"
  "StringToNumber ''142177AAAAAAAAAAAAAAAAAAAAAAAAAAAAAA'' = NaN"
  "StringToNumber ''1111AAAAAAAAAAAAAAAAAAAAAAAAAAAAAAAA'' = NaN"
  by code_simp+

lemmas loose_code = code_literals_NaN [THEN IsLooselyEqual_code]

section \<open>What each conversion assigns\<close>

lemma convertMaritalStatus_other:
  "name \<notin> {MaritalStatusMarried, MaritalStatusPolygamous, MaritalStatusDivorced,
       MaritalStatusWidowed, MaritalStatusSingle} \<Longrightarrow>
   convertMaritalStatus params pv name = pv name"
  by (simp add: convertMaritalStatus_def)

lemma convertMaritalStatus_set:
  "convertMaritalStatus params pv MaritalStatusMarried =
     (if IsLooselyEqual (idx params 5) (JStr ''5555AAAAAAAAAAAAAAAAAAAAAAAAAAAAAAAA'')
      then Num 1 else pv MaritalStatusMarried)"
  "convertMaritalStatus params pv MaritalStatusPolygamous =
     (if \<not> IsLooselyEqual (idx params 5) (JStr ''5555AAAAAAAAAAAAAAAAAAAAAAAAAAAAAAAA'') \<and>
         IsLooselyEqual (idx params 5) (JStr ''159715AAAAAAAAAAAAAAAAAAAAAAAAAAAAAA'')
      then Num 1 else pv MaritalStatusPolygamous)"
  "convertMaritalStatus params pv MaritalStatusDivorced =
     (if \<not> IsLooselyEqual (idx params 5) (JStr ''5555AAAAAAAAAAAAAAAAAAAAAAAAAAAAAAAA'') \<and>
         \<not> IsLooselyEqual (idx params 5) (JStr ''159715AAAAAAAAAAAAAAAAAAAAAAAAAAAAAA'') \<and>
         IsLooselyEqual (idx params 5) (JStr ''1058AAAAAAAAAAAAAAAAAAAAAAAAAAAAAAAA'')
      then Num 1 else pv MaritalStatusDivorced)"
  "convertMaritalStatus params pv MaritalStatusWidowed =
     (if \<not> IsLooselyEqual (idx params 5) (JStr ''5555AAAAAAAAAAAAAAAAAAAAAAAAAAAAAAAA'') \<and>
         \<not> IsLooselyEqual (idx params 5) (JStr ''159715AAAAAAAAAAAAAAAAAAAAAAAAAAAAAA'') \<and>
         \<not> IsLooselyEqual (idx params 5) (JStr ''1058AAAAAAAAAAAAAAAAAAAAAAAAAAAAAAAA'') \<and>
         IsLooselyEqual (idx params 5) (JStr ''1059AAAAAAAAAAAAAAAAAAAAAAAAAAAAAAAA'')
      then Num 1 else pv MaritalStatusWidowed)"
  "convertMaritalStatus params pv MaritalStatusSingle =
     (if \<not> IsLooselyEqual (idx params 5) (JStr ''5555AAAAAAAAAAAAAAAAAAAAAAAAAAAAAAAA'') \<and>
         \<not> IsLooselyEqual (idx params 5) (JStr ''159715AAAAAAAAAAAAAAAAAAAAAAAAAAAAAA'') \<and>
         \<not> IsLooselyEqual (idx params 5) (JStr ''1058AAAAAAAAAAAAAAAAAAAAAAAAAAAAAAAA'') \<and>
         \<not> IsLooselyEqual (idx params 5) (JStr ''1059AAAAAAAAAAAAAAAAAAAAAAAAAAAAAAAA'') \<and>
         IsLooselyEqual (idx params 5) (JStr ''1057AAAAAAAAAAAAAAAAAAAAAAAAAAAAAAAA'')
      then Num 1 else pv MaritalStatusSingle)"
  by (simp_all add: convertMaritalStatus_def)

lemma convertPopulationType_other:
  "name \<notin> {KeyPopulationTypeGP, KeyPopulationTypeSW} \<Longrightarrow>
   convertPopulationType params pv name = pv name"
  by (simp add: convertPopulationType_def)

lemma convertPopulationType_set:
  "convertPopulationType params pv KeyPopulationTypeGP =
     (if IsLooselyEqual (idx params 7) (JStr ''164928AAAAAAAAAAAAAAAAAAAAAAAAAAAAAA'')
      then Num 1 else pv KeyPopulationTypeGP)"
  "convertPopulationType params pv KeyPopulationTypeSW =
     (if \<not> IsLooselyEqual (idx params 7) (JStr ''164928AAAAAAAAAAAAAAAAAAAAAAAAAAAAAA'') \<and>
         IsLooselyEqual (idx params 7) (JStr ''164929AAAAAAAAAAAAAAAAAAAAAAAAAAAAAA'')
      then Num 1 else pv KeyPopulationTypeSW)"
  by (simp_all add: convertPopulationType_def)

lemma convertDisabilityStatus_other:
  "name \<notin> {PatientDisabledNo, PatientDisabledDisabled} \<Longrightarrow>
   convertDisabilityStatus params pv name = pv name"
  by (simp add: convertDisabilityStatus_def)

lemma convertDisabilityStatus_set:
  "convertDisabilityStatus params pv PatientDisabledNo =
     (if IsLooselyEqual (idx params 4) (JStr ''1066AAAAAAAAAAAAAAAAAAAAAAAAAAAAAAAA'')
      then Num 1 else pv PatientDisabledNo)"
  "convertDisabilityStatus params pv PatientDisabledDisabled =
     (if \<not> IsLooselyEqual (idx params 4) (JStr ''1066AAAAAAAAAAAAAAAAAAAAAAAAAAAAAAAA'') \<and>
         IsLooselyEqual (idx params 4) (JStr ''1065AAAAAAAAAAAAAAAAAAAAAAAAAAAAAAAA'')
      then Num 1 else pv PatientDisabledDisabled)"
  by (simp_all add: convertDisabilityStatus_def)

lemma convertEverTested_other:
  "name \<notin> {EverTestedForHIVYes, EverTestedForHivNo} \<Longrightarrow>
   convertEverTested params pv name = pv name"
  by (simp add: convertEverTested_def)

lemma convertEverTested_set:
  "convertEverTested params pv EverTestedForHIVYes =
     (if IsLooselyEqual (idx params 2) (JStr ''1065AAAAAAAAAAAAAAAAAAAAAAAAAAAAAAAA'')
      then Num 1 else pv EverTestedForHIVYes)"
  "convertEverTested params pv EverTestedForHivNo =
     (if \<not> IsLooselyEqual (idx params 2) (JStr ''1065AAAAAAAAAAAAAAAAAAAAAAAAAAAAAAAA'') \<and>
         IsLooselyEqual (idx params 2) (JStr ''1066AAAAAAAAAAAAAAAAAAAAAAAAAAAAAAAA'')
      then Num 1 else pv EverTestedForHivNo)"
  by (simp_all add: convertEverTested_def)

lemma convertTestedAs_other:
  "name \<notin> {ClientTestedAsIndividual, ClientTestedAsCouple} \<Longrightarrow>
   convertTestedAs params pv name = pv name"
  by (simp add: convertTestedAs_def)

lemma convertTestedAs_set:
  "convertTestedAs params pv ClientTestedAsIndividual =
     (if IsLooselyEqual (idx params 2) (JStr ''164957AAAAAAAAAAAAAAAAAAAAAAAAAAAAAA'')
      then Num 1 else pv ClientTestedAsIndividual)"
  "convertTestedAs params pv ClientTestedAsCouple =
     (if \<not> IsLooselyEqual (idx params 2) (JStr ''164957AAAAAAAAAAAAAAAAAAAAAAAAAAAAAA'') \<and>
         IsLooselyEqual (idx params 2) (JStr ''164958AAAAAAAAAAAAAAAAAAAAAAAAAAAAAA'')
      then Num 1 else pv ClientTestedAsCouple)"
  by (simp_all add: convertTestedAs_def)

lemma convertEntryPoint_other:
  "name \<notin> {EntryPointVCT, EntryPointOPD, EntryPointMTC, EntryPointIPD, EntryPointMOBILE,
       EntryPointHB, EntryPointPEDS, EntryPointOther, EntryPointVMMC, EntryPointTB} \<Longrightarrow>
   convertEntryPoint params pv name = pv name"
  by (simp add: convertEntryPoint_def)

lemma convertEntryPoint_set:
  "convertEntryPoint params pv EntryPointVCT =
     (if IsLooselyEqual (idx params 1) (Num 159940)
      then Num 1 else pv EntryPointVCT)"
  "convertEntryPoint params pv EntryPointOPD =
     (if \<not> IsLooselyEqual (idx params 1) (Num 159940) \<and>
         IsLooselyEqual (idx params 1) (JStr ''160542AAAAAAAAAAAAAAAAAAAAAAAAAAAAAA'')
      then Num 1 else pv EntryPointOPD)"
  "convertEntryPoint params pv EntryPointMTC =
     (if \<not> IsLooselyEqual (idx params 1) (Num 159940) \<and>
         \<not> IsLooselyEqual (idx params 1) (JStr ''160542AAAAAAAAAAAAAAAAAAAAAAAAAAAAAA'') \<and>
         IsLooselyEqual (idx params 1) (JStr ''160456AAAAAAAAAAAAAAAAAAAAAAAAAAAAAA'')
      then Num 1 else pv EntryPointMTC)"
  "convertEntryPoint params pv EntryPointIPD =
     (if \<not> IsLooselyEqual (idx params 1) (Num 159940) \<and>
         \<not> IsLooselyEqual (idx params 1) (JStr ''160542AAAAAAAAAAAAAAAAAAAAAAAAAAAAAA'') \<and>
         \<not> IsLooselyEqual (idx params 1) (JStr ''160456AAAAAAAAAAAAAAAAAAAAAAAAAAAAAA'') \<and>
         IsLooselyEqual (idx params 1) (JStr ''5485AAAAAAAAAAAAAAAAAAAAAAAAAAAAAAAA'')
      then Num 1 else pv EntryPointIPD)"
  "convertEntryPoint params pv EntryPointMOBILE =
     (if \<not> IsLooselyEqual (idx params 1) (Num 159940) \<and>
         \<not> IsLooselyEqual (idx params 1) (JStr ''160542AAAAAAAAAAAAAAAAAAAAAAAAAAAAAA'') \<and>
         \<not> IsLooselyEqual (idx params 1) (JStr ''160456AAAAAAAAAAAAAAAAAAAAAAAAAAAAAA'') \<and>
         \<not> IsLooselyEqual (idx params 1) (JStr ''5485AAAAAAAAAAAAAAAAAAAAAAAAAAAAAAAA'') \<and>
         IsLooselyEqual (idx params 1) (JStr ''159939AAAAAAAAAAAAAAAAAAAAAAAAAAAAAA'')
      then Num 1 else pv EntryPointMOBILE)"
  "convertEntryPoint params pv EntryPointHB =
     (if \<not> IsLooselyEqual (idx params 1) (Num 159940) \<and>
         \<not> IsLooselyEqual (idx params 1) (JStr ''160542AAAAAAAAAAAAAAAAAAAAAAAAAAAAAA'') \<and>
         \<not> IsLooselyEqual (idx params 1) (JStr ''160456AAAAAAAAAAAAAAAAAAAAAAAAAAAAAA'') \<and>
         \<not> IsLooselyEqual (idx params 1) (JStr ''5485AAAAAAAAAAAAAAAAAAAAAAAAAAAAAAAA'') \<and>
         \<not> IsLooselyEqual (idx params 1) (JStr ''159939AAAAAAAAAAAAAAAAAAAAAAAAAAAAAA'') \<and>
         IsLooselyEqual (idx params 1) (JStr ''159938AAAAAAAAAAAAAAAAAAAAAAAAAAAAAA'')
      then Num 1 else pv EntryPointHB)"
  "convertEntryPoint params pv EntryPointPEDS =
     (if \<not> IsLooselyEqual (idx params 1) (Num 159940) \<and>
         \<not> IsLooselyEqual (idx params 1) (JStr ''160542AAAAAAAAAAAAAAAAAAAAAAAAAAAAAA'') \<and>
         \<not> IsLooselyEqual (idx params 1) (JStr ''160456AAAAAAAAAAAAAAAAAAAAAAAAAAAAAA'') \<and>
         \<not> IsLooselyEqual (idx params 1) (JStr ''5485AAAAAAAAAAAAAAAAAAAAAAAAAAAAAAAA'') \<and>
         \<not> IsLooselyEqual (idx params 1) (JStr ''159939AAAAAAAAAAAAAAAAAAAAAAAAAAAAAA'') \<and>
         \<not> IsLooselyEqual (idx params 1) (JStr ''159938AAAAAAAAAAAAAAAAAAAAAAAAAAAAAA'') \<and>
         IsLooselyEqual (idx params 1) (JStr ''162181AAAAAAAAAAAAAAAAAAAAAAAAAAAAAA'')
      then Num 1 else pv EntryPointPEDS)"
  "convertEntryPoint params pv EntryPointOther =
     (if \<not> IsLooselyEqual (idx params 1) (Num 159940) \<and>
         \<not> IsLooselyEqual (idx params 1) (JStr ''160542AAAAAAAAAAAAAAAAAAAAAAAAAAAAAA'') \<and>
         \<not> IsLooselyEqual (idx params 1) (JStr ''160456AAAAAAAAAAAAAAAAAAAAAAAAAAAAAA'') \<and>
         \<not> IsLooselyEqual (idx params 1) (JStr ''5485AAAAAAAAAAAAAAAAAAAAAAAAAAAAAAAA'') \<and>
         \<not> IsLooselyEqual (idx params 1) (JStr ''159939AAAAAAAAAAAAAAAAAAAAAAAAAAAAAA'') \<and>
         \<not> IsLooselyEqual (idx params 1) (JStr ''159938AAAAAAAAAAAAAAAAAAAAAAAAAAAAAA'') \<and>
         \<not> IsLooselyEqual (idx params 1) (JStr ''162181AAAAAAAAAAAAAAAAAAAAAAAAAAAAAA'') \<and>
         IsLooselyEqual (idx params 1) (JStr ''5622AAAAAAAAAAAAAAAAAAAAAAAAAAAAAAAA'')
      then Num 1 else pv EntryPointOther)"
  "convertEntryPoint params pv EntryPointVMMC =
     (if \<not> IsLooselyEqual (idx params 1) (Num 159940) \<and>
         \<not> IsLooselyEqual (idx params 1) (JStr ''160542AAAAAAAAAAAAAAAAAAAAAAAAAAAAAA'') \<and>
         \<not> IsLooselyEqual (idx params 1) (JStr ''160456AAAAAAAAAAAAAAAAAAAAAAAAAAAAAA'') \<and>
         \<not> IsLooselyEqual (idx params 1) (JStr ''5485AAAAAAAAAAAAAAAAAAAAAAAAAAAAAAAA'') \<and>
         \<not> IsLooselyEqual (idx params 1) (JStr ''159939AAAAAAAAAAAAAAAAAAAAAAAAAAAAAA'') \<and>
         \<not> IsLooselyEqual (idx params 1) (JStr ''159938AAAAAAAAAAAAAAAAAAAAAAAAAAAAAA'') \<and>
         \<not> IsLooselyEqual (idx params 1) (JStr ''162181AAAAAAAAAAAAAAAAAAAAAAAAAAAAAA'') \<and>
         \<not> IsLooselyEqual (idx params 1) (JStr ''5622AAAAAAAAAAAAAAAAAAAAAAAAAAAAAAAA'') \<and>
         IsLooselyEqual (idx params 1) (JStr ''162223AAAAAAAAAAAAAAAAAAAAAAAAAAAAAA'')
      then Num 1 else pv EntryPointVMMC)"
  "convertEntryPoint params pv EntryPointTB =
     (if \<not> IsLooselyEqual (idx params 1) (Num 159940) \<and>
         \<not> IsLooselyEqual (idx params 1) (JStr ''160542AAAAAAAAAAAAAAAAAAAAAAAAAAAAAA'') \<and>
         \<not> IsLooselyEqual (idx params 1) (JStr ''160456AAAAAAAAAAAAAAAAAAAAAAAAAAAAAA'') \<and>
         \<not> IsLooselyEqual (idx params 1) (JStr ''5485AAAAAAAAAAAAAAAAAAAAAAAAAAAAAAAA'') \<and>
         \<not> IsLooselyEqual (idx params 1) (JStr ''159939AAAAAAAAAAAAAAAAAAAAAAAAAAAAAA'') \<and>
         \<not> IsLooselyEqual (idx params 1) (JStr ''159938AAAAAAAAAAAAAAAAAAAAAAAAAAAAAA'') \<and>
         \<not> IsLooselyEqual (idx params 1) (JStr ''162181AAAAAAAAAAAAAAAAAAAAAAAAAAAAAA'') \<and>
         \<not> IsLooselyEqual (idx params 1) (JStr ''5622AAAAAAAAAAAAAAAAAAAAAAAAAAAAAAAA'') \<and>
         \<not> IsLooselyEqual (idx params 1) (JStr ''162223AAAAAAAAAAAAAAAAAAAAAAAAAAAAAA'') \<and>
         IsLooselyEqual (idx params 1) (JStr ''160541AAAAAAAAAAAAAAAAAAAAAAAAAAAAAA'')
      then Num 1 else pv EntryPointTB)"
  by (simp_all add: convertEntryPoint_def)

lemma convertStrategy_other:
  "name \<notin> {TestingStrategyHB, TestingStrategyMOBILE, TestingStrategyHP, TestingStrategyNP,
       TestingStrategyVCT} \<Longrightarrow>
   convertStrategy params pv name = pv name"
  by (simp add: convertStrategy_def)

lemma convertStrategy_set:
  "convertStrategy params pv TestingStrategyHB =
     (if IsLooselyEqual (idx params 10) (JStr ''159938AAAAAAAAAAAAAAAAAAAAAAAAAAAAAA'')
      then Num 1 else pv TestingStrategyHB)"
  "convertStrategy params pv TestingStrategyMOBILE =
     (if \<not> IsLooselyEqual (idx params 10) (JStr ''159938AAAAAAAAAAAAAAAAAAAAAAAAAAAAAA'') \<and>
         IsLooselyEqual (idx params 10) (JStr ''159939AAAAAAAAAAAAAAAAAAAAAAAAAAAAAA'')
      then Num 1 else pv TestingStrategyMOBILE)"
  "convertStrategy params pv TestingStrategyHP =
     (if \<not> IsLooselyEqual (idx params 10) (JStr ''159938AAAAAAAAAAAAAAAAAAAAAAAAAAAAAA'') \<and>
         \<not> IsLooselyEqual (idx params 10) (JStr ''159939AAAAAAAAAAAAAAAAAAAAAAAAAAAAAA'') \<and>
         IsLooselyEqual (idx params 10) (JStr ''164163AAAAAAAAAAAAAAAAAAAAAAAAAAAAAA'')
      then Num 1 else pv TestingStrategyHP)"
  "convertStrategy params pv TestingStrategyNP =
     (if \<not> IsLooselyEqual (idx params 10) (JStr ''159938AAAAAAAAAAAAAAAAAAAAAAAAAAAAAA'') \<and>
         \<not> IsLooselyEqual (idx params 10) (JStr ''159939AAAAAAAAAAAAAAAAAAAAAAAAAAAAAA'') \<and>
         \<not> IsLooselyEqual (idx params 10) (JStr ''164163AAAAAAAAAAAAAAAAAAAAAAAAAAAAAA'') \<and>
         IsLooselyEqual (idx params 10) (JStr ''164953AAAAAAAAAAAAAAAAAAAAAAAAAAAAAA'')
      then Num 1 else pv TestingStrategyNP)"
  "convertStrategy params pv TestingStrategyVCT =
     (if \<not> IsLooselyEqual (idx params 10) (JStr ''159938AAAAAAAAAAAAAAAAAAAAAAAAAAAAAA'') \<and>
         \<not> IsLooselyEqual (idx params 10) (JStr ''159939AAAAAAAAAAAAAAAAAAAAAAAAAAAAAA'') \<and>
         \<not> IsLooselyEqual (idx params 10) (JStr ''164163AAAAAAAAAAAAAAAAAAAAAAAAAAAAAA'') \<and>
         \<not> IsLooselyEqual (idx params 10) (JStr ''164953AAAAAAAAAAAAAAAAAAAAAAAAAAAAAA'') \<and>
         (IsLooselyEqual (idx params 10) (JStr ''164954AAAAAAAAAAAAAAAAAAAAAAAAAAAAAA'') \<or> IsLooselyEqual (idx params 10) (JStr ''164955AAAAAAAAAAAAAAAAAAAAAAAAAAAAAA''))
      then Num 1 else pv TestingStrategyVCT)"
  by (simp_all add: convertStrategy_def)

lemma convertSelfTest_other:
  "name \<notin> {ClientSelfTestedNo, ClientSelfTestedYes} \<Longrightarrow>
   convertSelfTest params pv name = pv name"
  by (simp add: convertSelfTest_def)

lemma convertSelfTest_set:
  "convertSelfTest params pv ClientSelfTestedNo =
     (if IsLooselyEqual (idx params 8) (JStr ''1066AAAAAAAAAAAAAAAAAAAAAAAAAAAAAAAA'')
      then Num 1 else pv ClientSelfTestedNo)"
  "convertSelfTest params pv ClientSelfTestedYes =
     (if \<not> IsLooselyEqual (idx params 8) (JStr ''1066AAAAAAAAAAAAAAAAAAAAAAAAAAAAAAAA'') \<and>
         IsLooselyEqual (idx params 8) (JStr ''1065AAAAAAAAAAAAAAAAAAAAAAAAAAAAAAAA'')
      then Num 1 else pv ClientSelfTestedYes)"
  by (simp_all add: convertSelfTest_def)

lemma convertTBScreening_other:
  "name \<notin> {TBScreeningNoPresumedTB, TBScreeningPresumedTB} \<Longrightarrow>
   convertTBScreening params pv name = pv name"
  by (simp add: convertTBScreening_def)

lemma convertTBScreening_set:
  "convertTBScreening params pv TBScreeningNoPresumedTB =
     (if (IsLooselyEqual (idx params 9) (JStr ''1660AAAAAAAAAAAAAAAAAAAAAAAAAAAAAAAA'') \<or> IsLooselyEqual (idx params 9) (JStr ''160737AAAAAAAAAAAAAAAAAAAAAAAAAAAAAA''))
      then Num 1 else pv TBScreeningNoPresumedTB)"
  "convertTBScreening params pv TBScreeningPresumedTB =
     (if \<not> IsLooselyEqual (idx params 9) (JStr ''1660AAAAAAAAAAAAAAAAAAAAAAAAAAAAAAAA'') \<and> \<not> IsLooselyEqual (idx params 9) (JStr ''160737AAAAAAAAAAAAAAAAAAAAAAAAAAAAAA'') \<and>
         (IsLooselyEqual (idx params 9) (JStr ''142177AAAAAAAAAAAAAAAAAAAAAAAAAAAAAA'') \<or> IsLooselyEqual (idx params 9) (JStr ''1111AAAAAAAAAAAAAAAAAAAAAAAAAAAAAAAA''))
      then Num 1 else pv TBScreeningPresumedTB)"
  by (simp_all add: convertTBScreening_def)

section \<open>The properties of the encoded object\<close>

lemma predictionVariables_fields:
  "predictionVariables params AgeAtTest =
     Num 0"
  "predictionVariables params MonthsSinceLastTest =
     (if js_gt (idx params 6) (Num 0) then idx params 6 else Num 0)"
  "predictionVariables params GenderMale =
     (if IsLooselyEqual (idx params 3) (JStr ''M'') then Num 1 else Num 0)"
  "predictionVariables params GenderFemale =
     (if IsLooselyEqual (idx params 3) (JStr ''F'') then Num 1 else Num 0)"
  "predictionVariables params KeyPopulationTypeGP =
     (if IsLooselyEqual (idx params 7) (JStr ''164928AAAAAAAAAAAAAAAAAAAAAAAAAAAAAA'')
      then Num 1 else Num 0)"
  "predictionVariables params KeyPopulationTypeSW =
     (if \<not> IsLooselyEqual (idx params 7) (JStr ''164928AAAAAAAAAAAAAAAAAAAAAAAAAAAAAA'') \<and>
         IsLooselyEqual (idx params 7) (JStr ''164929AAAAAAAAAAAAAAAAAAAAAAAAAAAAAA'')
      then Num 1 else Num 0)"
  "predictionVariables params MaritalStatusMarried =
     (if IsLooselyEqual (idx params 5) (JStr ''5555AAAAAAAAAAAAAAAAAAAAAAAAAAAAAAAA'')
      then Num 1 else Num 0)"
  "predictionVariables params MaritalStatusDivorced =
     (if \<not> IsLooselyEqual (idx params 5) (JStr ''5555AAAAAAAAAAAAAAAAAAAAAAAAAAAAAAAA'') \<and>
         \<not> IsLooselyEqual (idx params 5) (JStr ''159715AAAAAAAAAAAAAAAAAAAAAAAAAAAAAA'') \<and>
         IsLooselyEqual (idx params 5) (JStr ''1058AAAAAAAAAAAAAAAAAAAAAAAAAAAAAAAA'')
      then Num 1 else Num 0)"
  "predictionVariables params MaritalStatusPolygamous =
     (if \<not> IsLooselyEqual (idx params 5) (JStr ''5555AAAAAAAAAAAAAAAAAAAAAAAAAAAAAAAA'') \<and>
         IsLooselyEqual (idx params 5) (JStr ''159715AAAAAAAAAAAAAAAAAAAAAAAAAAAAAA'')
      then Num 1 else Num 0)"
  "predictionVariables params MaritalStatusWidowed =
     (if \<not> IsLooselyEqual (idx params 5) (JStr ''5555AAAAAAAAAAAAAAAAAAAAAAAAAAAAAAAA'') \<and>
         \<not> IsLooselyEqual (idx params 5) (JStr ''159715AAAAAAAAAAAAAAAAAAAAAAAAAAAAAA'') \<and>
         \<not> IsLooselyEqual (idx params 5) (JStr ''1058AAAAAAAAAAAAAAAAAAAAAAAAAAAAAAAA'') \<and>
         IsLooselyEqual (idx params 5) (JStr ''1059AAAAAAAAAAAAAAAAAAAAAAAAAAAAAAAA'')
      then Num 1 else Num 0)"
  "predictionVariables params MaritalStatusSingle =
     (if \<not> IsLooselyEqual (idx params 5) (JStr ''5555AAAAAAAAAAAAAAAAAAAAAAAAAAAAAAAA'') \<and>
         \<not> IsLooselyEqual (idx params 5) (JStr ''159715AAAAAAAAAAAAAAAAAAAAAAAAAAAAAA'') \<and>
         \<not> IsLooselyEqual (idx params 5) (JStr ''1058AAAAAAAAAAAAAAAAAAAAAAAAAAAAAAAA'') \<and>
         \<not> IsLooselyEqual (idx params 5) (JStr ''1059AAAAAAAAAAAAAAAAAAAAAAAAAAAAAAAA'') \<and>
         IsLooselyEqual (idx params 5) (JStr ''1057AAAAAAAAAAAAAAAAAAAAAAAAAAAAAAAA'')
      then Num 1 else Num 0)"
  "predictionVariables params MaritalStatusMinor =
     (if js_lt (idx params 0) (Num 15) then Num 1 else Num 0)"
  "predictionVariables params PatientDisabledNo =
     (if IsLooselyEqual (idx params 4) (JStr ''1066AAAAAAAAAAAAAAAAAAAAAAAAAAAAAAAA'')
      then Num 1 else Num 0)"
  "predictionVariables params PatientDisabledDisabled =
     (if \<not> IsLooselyEqual (idx params 4) (JStr ''1066AAAAAAAAAAAAAAAAAAAAAAAAAAAAAAAA'') \<and>
         IsLooselyEqual (idx params 4) (JStr ''1065AAAAAAAAAAAAAAAAAAAAAAAAAAAAAAAA'')
      then Num 1 else Num 0)"
  "predictionVariables params EverTestedForHIVYes =
     (if IsLooselyEqual (idx params 2) (JStr ''1065AAAAAAAAAAAAAAAAAAAAAAAAAAAAAAAA'')
      then Num 1 else Num 0)"
  "predictionVariables params EverTestedForHivNo =
     (if \<not> IsLooselyEqual (idx params 2) (JStr ''1065AAAAAAAAAAAAAAAAAAAAAAAAAAAAAAAA'') \<and>
         IsLooselyEqual (idx params 2) (JStr ''1066AAAAAAAAAAAAAAAAAAAAAAAAAAAAAAAA'')
      then Num 1 else Num 0)"
  "predictionVariables params ClientTestedAsIndividual =
     (if IsLooselyEqual (idx params 2) (JStr ''164957AAAAAAAAAAAAAAAAAAAAAAAAAAAAAA'')
      then Num 1 else Num 0)"
  "predictionVariables params ClientTestedAsCouple =
     (if \<not> IsLooselyEqual (idx params 2) (JStr ''164957AAAAAAAAAAAAAAAAAAAAAAAAAAAAAA'') \<and>
         IsLooselyEqual (idx params 2) (JStr ''164958AAAAAAAAAAAAAAAAAAAAAAAAAAAAAA'')
      then Num 1 else Num 0)"
  "predictionVariables params EntryPointVCT =
     (if IsLooselyEqual (idx params 1) (Num 159940)
      then Num 1 else Num 0)"
  "predictionVariables params EntryPointOPD =
     (if \<not> IsLooselyEqual (idx params 1) (Num 159940) \<and>
         IsLooselyEqual (idx params 1) (JStr ''160542AAAAAAAAAAAAAAAAAAAAAAAAAAAAAA'')
      then Num 1 else Num 0)"
  "predictionVariables params EntryPointMTC =
     (if \<not> IsLooselyEqual (idx params 1) (Num 159940) \<and>
         \<not> IsLooselyEqual (idx params 1) (JStr ''160542AAAAAAAAAAAAAAAAAAAAAAAAAAAAAA'') \<and>
         IsLooselyEqual (idx params 1) (JStr ''160456AAAAAAAAAAAAAAAAAAAAAAAAAAAAAA'')
      then Num 1 else Num 0)"
  "predictionVariables params EntryPointIPD =
     (if \<not> IsLooselyEqual (idx params 1) (Num 159940) \<and>
         \<not> IsLooselyEqual (idx params 1) (JStr ''160542AAAAAAAAAAAAAAAAAAAAAAAAAAAAAA'') \<and>
         \<not> IsLooselyEqual (idx params 1) (JStr ''160456AAAAAAAAAAAAAAAAAAAAAAAAAAAAAA'') \<and>
         IsLooselyEqual (idx params 1) (JStr ''5485AAAAAAAAAAAAAAAAAAAAAAAAAAAAAAAA'')
      then Num 1 else Num 0)"
  "predictionVariables params EntryPointMOBILE =
     (if \<not> IsLooselyEqual (idx params 1) (Num 159940) \<and>
         \<not> IsLooselyEqual (idx params 1) (JStr ''160542AAAAAAAAAAAAAAAAAAAAAAAAAAAAAA'') \<and>
         \<not> IsLooselyEqual (idx params 1) (JStr ''160456AAAAAAAAAAAAAAAAAAAAAAAAAAAAAA'') \<and>
         \<not> IsLooselyEqual (idx params 1) (JStr ''5485AAAAAAAAAAAAAAAAAAAAAAAAAAAAAAAA'') \<and>
         IsLooselyEqual (idx params 1) (JStr ''159939AAAAAAAAAAAAAAAAAAAAAAAAAAAAAA'')
      then Num 1 else Num 0)"
  "predictionVariables params EntryPointOther =
     (if \<not> IsLooselyEqual (idx params 1) (Num 159940) \<and>
         \<not> IsLooselyEqual (idx params 1) (JStr ''160542AAAAAAAAAAAAAAAAAAAAAAAAAAAAAA'') \<and>
         \<not> IsLooselyEqual (idx params 1) (JStr ''160456AAAAAAAAAAAAAAAAAAAAAAAAAAAAAA'') \<and>
         \<not> IsLooselyEqual (idx params 1) (JStr ''5485AAAAAAAAAAAAAAAAAAAAAAAAAAAAAAAA'') \<and>
         \<not> IsLooselyEqual (idx params 1) (JStr ''159939AAAAAAAAAAAAAAAAAAAAAAAAAAAAAA'') \<and>
         \<not> IsLooselyEqual (idx params 1) (JStr ''159938AAAAAAAAAAAAAAAAAAAAAAAAAAAAAA'') \<and>
         \<not> IsLooselyEqual (idx params 1) (JStr ''162181AAAAAAAAAAAAAAAAAAAAAAAAAAAAAA'') \<and>
         IsLooselyEqual (idx params 1) (JStr ''5622AAAAAAAAAAAAAAAAAAAAAAAAAAAAAAAA'')
      then Num 1 else Num 0)"
  "predictionVariables params EntryPointHB =
     (if \<not> IsLooselyEqual (idx params 1) (Num 159940) \<and>
         \<not> IsLooselyEqual (idx params 1) (JStr ''160542AAAAAAAAAAAAAAAAAAAAAAAAAAAAAA'') \<and>
         \<not> IsLooselyEqual (idx params 1) (JStr ''160456AAAAAAAAAAAAAAAAAAAAAAAAAAAAAA'') \<and>
         \<not> IsLooselyEqual (idx params 1) (JStr ''5485AAAAAAAAAAAAAAAAAAAAAAAAAAAAAAAA'') \<and>
         \<not> IsLooselyEqual (idx params 1) (JStr ''159939AAAAAAAAAAAAAAAAAAAAAAAAAAAAAA'') \<and>
         IsLooselyEqual (idx params 1) (JStr ''159938AAAAAAAAAAAAAAAAAAAAAAAAAAAAAA'')
      then Num 1 else Num 0)"
  "predictionVariables params EntryPointPEDS =
     (if \<not> IsLooselyEqual (idx params 1) (Num 159940) \<and>
         \<not> IsLooselyEqual (idx params 1) (JStr ''160542AAAAAAAAAAAAAAAAAAAAAAAAAAAAAA'') \<and>
         \<not> IsLooselyEqual (idx params 1) (JStr ''160456AAAAAAAAAAAAAAAAAAAAAAAAAAAAAA'') \<and>
         \<not> IsLooselyEqual (idx params 1) (JStr ''5485AAAAAAAAAAAAAAAAAAAAAAAAAAAAAAAA'') \<and>
         \<not> IsLooselyEqual (idx params 1) (JStr ''159939AAAAAAAAAAAAAAAAAAAAAAAAAAAAAA'') \<and>
         \<not> IsLooselyEqual (idx params 1) (JStr ''159938AAAAAAAAAAAAAAAAAAAAAAAAAAAAAA'') \<and>
         IsLooselyEqual (idx params 1) (JStr ''162181AAAAAAAAAAAAAAAAAAAAAAAAAAAAAA'')
      then Num 1 else Num 0)"
  "predictionVariables params EntryPointVMMC =
     (if \<not> IsLooselyEqual (idx params 1) (Num 159940) \<and>
         \<not> IsLooselyEqual (idx params 1) (JStr ''160542AAAAAAAAAAAAAAAAAAAAAAAAAAAAAA'') \<and>
         \<not> IsLooselyEqual (idx params 1) (JStr ''160456AAAAAAAAAAAAAAAAAAAAAAAAAAAAAA'') \<and>
         \<not> IsLooselyEqual (idx params 1) (JStr ''5485AAAAAAAAAAAAAAAAAAAAAAAAAAAAAAAA'') \<and>
         \<not> IsLooselyEqual (idx params 1) (JStr ''159939AAAAAAAAAAAAAAAAAAAAAAAAAAAAAA'') \<and>
         \<not> IsLooselyEqual (idx params 1) (JStr ''159938AAAAAAAAAAAAAAAAAAAAAAAAAAAAAA'') \<and>
         \<not> IsLooselyEqual (idx params 1) (JStr ''162181AAAAAAAAAAAAAAAAAAAAAAAAAAAAAA'') \<and>
         \<not> IsLooselyEqual (idx params 1) (JStr ''5622AAAAAAAAAAAAAAAAAAAAAAAAAAAAAAAA'') \<and>
         IsLooselyEqual (idx params 1) (JStr ''162223AAAAAAAAAAAAAAAAAAAAAAAAAAAAAA'')
      then Num 1 else Num 0)"
  "predictionVariables params EntryPointTB =
     (if \<not> IsLooselyEqual (idx params 1) (Num 159940) \<and>
         \<not> IsLooselyEqual (idx params 1) (JStr ''160542AAAAAAAAAAAAAAAAAAAAAAAAAAAAAA'') \<and>
         \<not> IsLooselyEqual (idx params 1) (JStr ''160456AAAAAAAAAAAAAAAAAAAAAAAAAAAAAA'') \<and>
         \<not> IsLooselyEqual (idx params 1) (JStr ''5485AAAAAAAAAAAAAAAAAAAAAAAAAAAAAAAA'') \<and>
         \<not> IsLooselyEqual (idx params 1) (JStr ''159939AAAAAAAAAAAAAAAAAAAAAAAAAAAAAA'') \<and>
         \<not> IsLooselyEqual (idx params 1) (JStr ''159938AAAAAAAAAAAAAAAAAAAAAAAAAAAAAA'') \<and>
         \<not> IsLooselyEqual (idx params 1) (JStr ''162181AAAAAAAAAAAAAAAAAAAAAAAAAAAAAA'') \<and>
         \<not> IsLooselyEqual (idx params 1) (JStr ''5622AAAAAAAAAAAAAAAAAAAAAAAAAAAAAAAA'') \<and>
         \<not> IsLooselyEqual (idx params 1) (JStr ''162223AAAAAAAAAAAAAAAAAAAAAAAAAAAAAA'') \<and>
         IsLooselyEqual (idx params 1) (JStr ''160541AAAAAAAAAAAAAAAAAAAAAAAAAAAAAA'')
      then Num 1 else Num 0)"
  "predictionVariables params EntryPointCCC =
     Num 0"
  "predictionVariables params EntryPointPNS =
     Num 0"
  "predictionVariables params TestingStrategyVCT =
     (if \<not> IsLooselyEqual (idx params 10) (JStr ''159938AAAAAAAAAAAAAAAAAAAAAAAAAAAAAA'') \<and>
         \<not> IsLooselyEqual (idx params 10) (JStr ''159939AAAAAAAAAAAAAAAAAAAAAAAAAAAAAA'') \<and>
         \<not> IsLooselyEqual (idx params 10) (JStr ''164163AAAAAAAAAAAAAAAAAAAAAAAAAAAAAA'') \<and>
         \<not> IsLooselyEqual (idx params 10) (JStr ''164953AAAAAAAAAAAAAAAAAAAAAAAAAAAAAA'') \<and>
         (IsLooselyEqual (idx params 10) (JStr ''164954AAAAAAAAAAAAAAAAAAAAAAAAAAAAAA'') \<or> IsLooselyEqual (idx params 10) (JStr ''164955AAAAAAAAAAAAAAAAAAAAAAAAAAAAAA''))
      then Num 1 else Num 0)"
  "predictionVariables params TestingStrategyHB =
     (if IsLooselyEqual (idx params 10) (JStr ''159938AAAAAAAAAAAAAAAAAAAAAAAAAAAAAA'')
      then Num 1 else Num 0)"
  "predictionVariables params TestingStrategyMOBILE =
     (if \<not> IsLooselyEqual (idx params 10) (JStr ''159938AAAAAAAAAAAAAAAAAAAAAAAAAAAAAA'') \<and>
         IsLooselyEqual (idx params 10) (JStr ''159939AAAAAAAAAAAAAAAAAAAAAAAAAAAAAA'')
      then Num 1 else Num 0)"
  "predictionVariables params TestingStrategyHP =
     (if \<not> IsLooselyEqual (idx params 10) (JStr ''159938AAAAAAAAAAAAAAAAAAAAAAAAAAAAAA'') \<and>
         \<not> IsLooselyEqual (idx params 10) (JStr ''159939AAAAAAAAAAAAAAAAAAAAAAAAAAAAAA'') \<and>
         IsLooselyEqual (idx params 10) (JStr ''164163AAAAAAAAAAAAAAAAAAAAAAAAAAAAAA'')
      then Num 1 else Num 0)"
  "predictionVariables params TestingStrategyNP =
     (if \<not> IsLooselyEqual (idx params 10) (JStr ''159938AAAAAAAAAAAAAAAAAAAAAAAAAAAAAA'') \<and>
         \<not> IsLooselyEqual (idx params 10) (JStr ''159939AAAAAAAAAAAAAAAAAAAAAAAAAAAAAA'') \<and>
         \<not> IsLooselyEqual (idx params 10) (JStr ''164163AAAAAAAAAAAAAAAAAAAAAAAAAAAAAA'') \<and>
         IsLooselyEqual (idx params 10) (JStr ''164953AAAAAAAAAAAAAAAAAAAAAAAAAAAAAA'')
      then Num 1 else Num 0)"
  "predictionVariables params TBScreeningNoPresumedTB =
     (if (IsLooselyEqual (idx params 9) (JStr ''1660AAAAAAAAAAAAAAAAAAAAAAAAAAAAAAAA'') \<or> IsLooselyEqual (idx params 9) (JStr ''160737AAAAAAAAAAAAAAAAAAAAAAAAAAAAAA''))
      then Num 1 else Num 0)"
  "predictionVariables params TBScreeningPresumedTB =
     (if \<not> IsLooselyEqual (idx params 9) (JStr ''1660AAAAAAAAAAAAAAAAAAAAAAAAAAAAAAAA'') \<and> \<not> IsLooselyEqual (idx params 9) (JStr ''160737AAAAAAAAAAAAAAAAAAAAAAAAAAAAAA'') \<and>
         (IsLooselyEqual (idx params 9) (JStr ''142177AAAAAAAAAAAAAAAAAAAAAAAAAAAAAA'') \<or> IsLooselyEqual (idx params 9) (JStr ''1111AAAAAAAAAAAAAAAAAAAAAAAAAAAAAAAA''))
      then Num 1 else Num 0)"
  "predictionVariables params ClientSelfTestedNo =
     (if IsLooselyEqual (idx params 8) (JStr ''1066AAAAAAAAAAAAAAAAAAAAAAAAAAAAAAAA'')
      then Num 1 else Num 0)"
  "predictionVariables params ClientSelfTestedYes =
     (if \<not> IsLooselyEqual (idx params 8) (JStr ''1066AAAAAAAAAAAAAAAAAAAAAAAAAAAAAAAA'') \<and>
         IsLooselyEqual (idx params 8) (JStr ''1065AAAAAAAAAAAAAAAAAAAAAAAAAAAAAAAA'')
      then Num 1 else Num 0)"
  by (simp_all add: predictionVariables_def convertMinor_def
      convertMaritalStatus_other convertPopulationType_other convertDisabilityStatus_other convertEverTested_other convertTestedAs_other
      convertEntryPoint_other convertStrategy_other convertSelfTest_other convertTBScreening_other
      convertMaritalStatus_set convertPopulationType_set convertDisabilityStatus_set convertEverTested_set convertTestedAs_set
      convertEntryPoint_set convertStrategy_set convertSelfTest_set convertTBScreening_set)


section \<open>The encoder: claims C5 to C10\<close>

lemma group_gender:
  "group_encoded params (predictionVariables params) (indicator_groups ! 0)"
  by (simp add: indicator_groups_def group_encoded_def predictionVariables_fields loose_code)

lemma group_marital_status:
  "group_encoded params (predictionVariables params) (indicator_groups ! 1)"
  by (simp add: indicator_groups_def group_encoded_def predictionVariables_fields)

lemma group_population_type:
  "group_encoded params (predictionVariables params) (indicator_groups ! 2)"
  by (simp add: indicator_groups_def group_encoded_def predictionVariables_fields)

lemma group_disability:
  "group_encoded params (predictionVariables params) (indicator_groups ! 3)"
  by (simp add: indicator_groups_def group_encoded_def predictionVariables_fields)

lemma group_ever_tested:
  "group_encoded params (predictionVariables params) (indicator_groups ! 4)"
  by (simp add: indicator_groups_def group_encoded_def predictionVariables_fields)

lemma group_tested_as:
  "group_encoded params (predictionVariables params) (indicator_groups ! 5)"
  by (simp add: indicator_groups_def group_encoded_def predictionVariables_fields)

lemma group_entry_point:
  "group_encoded params (predictionVariables params) (indicator_groups ! 6)"
  by (simp add: indicator_groups_def group_encoded_def predictionVariables_fields)

lemma group_strategy:
  "group_encoded params (predictionVariables params) (indicator_groups ! 7)"
  by (simp add: indicator_groups_def group_encoded_def predictionVariables_fields)

lemma group_tb_screening:
  "group_encoded params (predictionVariables params) (indicator_groups ! 8)"
  by (simp add: indicator_groups_def group_encoded_def predictionVariables_fields)

lemma group_self_tested:
  "group_encoded params (predictionVariables params) (indicator_groups ! 9)"
  by (simp add: indicator_groups_def group_encoded_def predictionVariables_fields)

text \<open>
  Claim C5, as the code has it. In every indicator group of the encoded object each
  property is 0 or 1, at most one property is 1, and an element that matches none of
  the literals of its group leaves every property of the group at 0. The groups are:
  gender, marital status (the five properties set from the marital-status code), key
  population type, disability, ever tested, tested as, entry point, testing strategy,
  TB screening and self tested. \<open>MaritalStatusMinor\<close> is no part of the marital-status
  group: it is set from the age, whatever the marital-status code.
\<close>

theorem C5_indicator_groups:
  "list_all (group_encoded params (predictionVariables params)) indicator_groups"
proof -
  have groups: "indicator_groups =
      [indicator_groups ! 0, indicator_groups ! 1, indicator_groups ! 2,
       indicator_groups ! 3, indicator_groups ! 4, indicator_groups ! 5,
       indicator_groups ! 6, indicator_groups ! 7, indicator_groups ! 8,
       indicator_groups ! 9]"
    by (simp add: indicator_groups_def)
  show ?thesis
    by (subst groups)
      (simp only: list.pred_inject simp_thms group_gender group_marital_status
        group_population_type group_disability group_ever_tested group_tested_as
        group_entry_point group_strategy group_tb_screening group_self_tested)
qed

text \<open>
  Witness of C5: with no parameters every element reads undefined and matches no
  literal, and every property of every group is 0.
\<close>

theorem C5_indicator_groups_witness:
  "list_all
     (\<lambda>(k, codes, names).
        list_all (\<lambda>c. \<not> IsLooselyEqual (idx [] k) c) codes \<and>
        list_all (\<lambda>name. predictionVariables [] name = Num 0) names)
     indicator_groups"
  using C5_indicator_groups [of "[]"]
  by (simp add: indicator_groups_def group_encoded_def idx_def)

text \<open>
  Counterexample to C5 as stated, with \<open>MaritalStatusMinor\<close> counted in the
  marital-status group: a married client of age 10 has two properties of the group at 1,
  and a client of age 10 with no marital-status code has one.
\<close>

theorem C5_marital_group_counterexample:
  "predictionVariables
     [Num 10, JUndefined, JUndefined, JUndefined, JUndefined,
      JStr ''5555AAAAAAAAAAAAAAAAAAAAAAAAAAAAAAAA''] MaritalStatusMarried = Num 1 \<and>
   predictionVariables
     [Num 10, JUndefined, JUndefined, JUndefined, JUndefined,
      JStr ''5555AAAAAAAAAAAAAAAAAAAAAAAAAAAAAAAA''] MaritalStatusMinor = Num 1 \<and>
   idx [Num 10] 5 = JUndefined \<and>
   predictionVariables [Num 10] MaritalStatusMinor = Num 1"
  by (simp add: predictionVariables_fields idx_def js_lt_def)

lemma long_form_VCT_NaN:
  "StringToNumber ''159940AAAAAAAAAAAAAAAAAAAAAAAAAAAAAA'' = NaN"
  by code_simp

text \<open>
  Claim C6 at the long-form identifier of VCT. The entry-point conversion compares the
  element with the number 159940, and the identifier is no numeral: the encoded object
  has \<open>EntryPointVCT\<close> at 0, as it has every other entry-point property.
\<close>

theorem C6_long_form_VCT_not_encoded:
  "list_all
     (\<lambda>name. predictionVariables
        [Num 30, JStr ''159940AAAAAAAAAAAAAAAAAAAAAAAAAAAAAA''] name = Num 0)
     [EntryPointVCT, EntryPointOPD, EntryPointMTC, EntryPointIPD, EntryPointMOBILE,
      EntryPointOther, EntryPointHB, EntryPointPEDS, EntryPointVMMC, EntryPointTB,
      EntryPointCCC, EntryPointPNS]"
  by (simp add: predictionVariables_fields idx_def long_form_VCT_NaN)

text \<open>The part of C6 that the code has: the number 159940 sets \<open>EntryPointVCT\<close> alone.\<close>

lemma entry_point_number_VCT:
  "idx params 1 = Num 159940 \<Longrightarrow>
   list_all
     (\<lambda>name. predictionVariables params name = (if name = EntryPointVCT then Num 1 else Num 0))
     [EntryPointVCT, EntryPointOPD, EntryPointMTC, EntryPointIPD, EntryPointMOBILE,
      EntryPointOther, EntryPointHB, EntryPointPEDS, EntryPointVMMC, EntryPointTB,
      EntryPointCCC, EntryPointPNS]"
  by (simp add: predictionVariables_fields)

text \<open>
  Claim C7. When the element at position 0 is a number below 15, the encoded object has
  \<open>MaritalStatusMinor\<close> at 1, whatever the other elements are, the marital-status code
  at position 5 among them.
\<close>

theorem C7_minor_below_15:
  "idx params 0 = Num age \<Longrightarrow> age < 15 \<Longrightarrow>
   predictionVariables params MaritalStatusMinor = Num 1"
  by (simp add: predictionVariables_fields js_lt_def)

theorem C7_minor_below_15_witness:
  "idx [Num 14, JUndefined, JUndefined, JUndefined, JUndefined,
        JStr ''5555AAAAAAAAAAAAAAAAAAAAAAAAAAAAAAAA''] 0 = Num 14 \<and>
   (14 :: real) < 15 \<and>
   predictionVariables
     [Num 14, JUndefined, JUndefined, JUndefined, JUndefined,
      JStr ''5555AAAAAAAAAAAAAAAAAAAAAAAAAAAAAAAA''] MaritalStatusMinor = Num 1"
proof -
  have a: "idx [Num 14, JUndefined, JUndefined, JUndefined, JUndefined,
      JStr ''5555AAAAAAAAAAAAAAAAAAAAAAAAAAAAAAAA''] 0 = Num 14"
    by (simp add: idx_def)
  have b: "(14 :: real) < 15"
    by simp
  from a b C7_minor_below_15 [OF a b] show ?thesis
    by simp
qed

text \<open>
  Claim C8. When the element at position 3 is the string \<open>M\<close>, the encoded object has
  \<open>GenderMale\<close> at 1 and \<open>GenderFemale\<close> at 0; when it is \<open>F\<close>, \<open>GenderFemale\<close> at 1
  and \<open>GenderMale\<close> at 0; for any other value both are 0.
\<close>

theorem C8_gender:
  "(idx params 3 = JStr ''M'' \<longrightarrow>
      predictionVariables params GenderMale = Num 1 \<and>
      predictionVariables params GenderFemale = Num 0) \<and>
   (idx params 3 = JStr ''F'' \<longrightarrow>
      predictionVariables params GenderFemale = Num 1 \<and>
      predictionVariables params GenderMale = Num 0) \<and>
   (idx params 3 \<noteq> JStr ''M'' \<and> idx params 3 \<noteq> JStr ''F'' \<longrightarrow>
      predictionVariables params GenderMale = Num 0 \<and>
      predictionVariables params GenderFemale = Num 0)"
  by (simp add: predictionVariables_fields loose_code)

theorem C8_gender_witness:
  "predictionVariables [Num 30, JUndefined, JUndefined, JStr ''M''] GenderMale = Num 1 \<and>
   predictionVariables [Num 30, JUndefined, JUndefined, JStr ''M''] GenderFemale = Num 0 \<and>
   predictionVariables [Num 30, JUndefined, JUndefined, JStr ''F''] GenderFemale = Num 1 \<and>
   predictionVariables [Num 30, JUndefined, JUndefined, JStr ''F''] GenderMale = Num 0 \<and>
   predictionVariables [Num 30, JUndefined, JUndefined, JStr ''male''] GenderMale = Num 0 \<and>
   predictionVariables [Num 30, JUndefined, JUndefined, JStr ''male''] GenderFemale = Num 0"
  using C8_gender [of "[Num 30, JUndefined, JUndefined, JStr ''M'']"]
    C8_gender [of "[Num 30, JUndefined, JUndefined, JStr ''F'']"]
    C8_gender [of "[Num 30, JUndefined, JUndefined, JStr ''male'']"]
  by (simp add: idx_def)

text \<open>
  Claim C9. \<open>AgeAtTest\<close> of the encoded object is always 0, and the element at position
  0 reaches \<open>MaritalStatusMinor\<close> alone: two parameter sequences that agree at every
  position but 0 are encoded alike but for \<open>MaritalStatusMinor\<close>.
\<close>

theorem C9_age:
  assumes "\<And>k. 0 < k \<Longrightarrow> idx params' k = idx params k"
  shows "predictionVariables params AgeAtTest = Num 0 \<and>
    (predictionVariables params')(MaritalStatusMinor := v) =
    (predictionVariables params)(MaritalStatusMinor := v)"
proof -
  have "((predictionVariables params')(MaritalStatusMinor := v)) name =
        ((predictionVariables params)(MaritalStatusMinor := v)) name" for name
    by (cases name) (simp_all add: predictionVariables_fields assms)
  then show ?thesis
    by (simp add: predictionVariables_fields fun_eq_iff)
qed

theorem C9_age_witness:
  "predictionVariables [Num 40, JUndefined, JUndefined, JStr ''F''] AgeAtTest = Num 0 \<and>
   (predictionVariables [Num 10, JUndefined, JUndefined, JStr ''F''])
      (MaritalStatusMinor := Num 0) =
   (predictionVariables [Num 40, JUndefined, JUndefined, JStr ''F''])
      (MaritalStatusMinor := Num 0)"
proof -
  have "idx [Num 10, JUndefined, JUndefined, JStr ''F''] k =
        idx [Num 40, JUndefined, JUndefined, JStr ''F''] k" if "0 < k" for k
    using that by (cases k) (simp_all add: idx_def)
  then show ?thesis
    by (rule C9_age)
qed

text \<open>
  Claim C10. The ever-tested properties and the tested-as properties are all set from
  the element at position 2, each by one literal; at most one of the four is 1, and an
  ever-tested property and a tested-as property are never both 1.
\<close>

theorem C10_ever_tested_and_tested_as:
  "predictionVariables params EverTestedForHIVYes =
     (if idx params 2 = JStr ''1065AAAAAAAAAAAAAAAAAAAAAAAAAAAAAAAA'' then Num 1 else Num 0) \<and>
   predictionVariables params EverTestedForHivNo =
     (if idx params 2 = JStr ''1066AAAAAAAAAAAAAAAAAAAAAAAAAAAAAAAA'' then Num 1 else Num 0) \<and>
   predictionVariables params ClientTestedAsIndividual =
     (if idx params 2 = JStr ''164957AAAAAAAAAAAAAAAAAAAAAAAAAAAAAA'' then Num 1 else Num 0) \<and>
   predictionVariables params ClientTestedAsCouple =
     (if idx params 2 = JStr ''164958AAAAAAAAAAAAAAAAAAAAAAAAAAAAAA'' then Num 1 else Num 0) \<and>
   length (filter (\<lambda>name. predictionVariables params name = Num 1)
     [EverTestedForHIVYes, EverTestedForHivNo, ClientTestedAsIndividual,
      ClientTestedAsCouple]) \<le> 1 \<and>
   \<not> ((predictionVariables params EverTestedForHIVYes = Num 1 \<or>
        predictionVariables params EverTestedForHivNo = Num 1) \<and>
       (predictionVariables params ClientTestedAsIndividual = Num 1 \<or>
        predictionVariables params ClientTestedAsCouple = Num 1))"
  by (simp add: predictionVariables_fields loose_code)

section \<open>The request and the risk tiers: claims C1 to C4\<close>

lemma getMLRiskScore_settles:
  "endpoint (scoringRequest mlFormattedDate params) = Inr result \<Longrightarrow>
   snd (getMLRiskScore endpoint mlFormattedDate params) = thenResult result"
  by (simp add: getMLRiskScore_def Let_def)

text \<open>
  No property is read from undefined or null: where \<open>result?.result?.predictions\<close> is
  truthy both ways of reading the probability succeed, so the function given to
  \<open>then\<close> always returns a message.
\<close>

lemma ToBoolean_defined: "ToBoolean v \<Longrightarrow> \<exists>x. v = Some x \<and> x \<noteq> JsonNull"
  by (cases v rule: ToBoolean.cases) simp_all

lemma probability_reads:
  "ToBoolean (predictions_of result) \<Longrightarrow>
   probability_optional result = probability_plain result \<and>
   (\<exists>p. probability_plain result = Inr p)"
  by (auto simp: predictions_of_def probability_optional_def probability_plain_def
      member_def nullish_def Let_def split: option.splits if_splits
      dest: ToBoolean_defined)

lemma thenResult_fulfilled: "\<exists>message. thenResult result = Inr message"
proof (cases "ToBoolean (predictions_of result)")
  case True
  from probability_reads [OF True] obtain p where
    "probability_optional result = Inr p" "probability_plain result = Inr p"
    by auto
  then show ?thesis
    by (simp add: thenResult_def gt_def lt_def le_def ifReturn_def andAlso_def)
next
  case False
  then show ?thesis
    by (simp add: thenResult_def)
qed

text \<open>
  The tier of every probability: the tests of the source leave the value
  \<open>highRiskThreshold\<close> itself to the third test.
\<close>

lemma thenResult_scoringResult:
  "thenResult (scoringResult p) =
     Inr (if highRiskThreshold < p then
            ''Client has a very high probability of a HIV positive test result. Testing is strongly recommended''
          else if mediumRiskThreshold < p \<and> p < highRiskThreshold then
            ''Client has a high probability of a HIV positive test result. Testing is strongly recommended''
          else if lowRiskThreshold < p then
            ''Client has a medium probability of a HIV positive test result. Testing is recommended''
          else
            ''Client has a low probability of a HIV positive test result. Testing may not be recommended'')"
  by (simp add: thenResult_def scoringResult_def predictions_of_def probability_optional_def
      probability_plain_def member_def nullish_def gt_def lt_def le_def ifReturn_def
      andAlso_def)

text \<open>
  Claim C1 at the highest threshold. A probability equal to \<open>highRiskThreshold\<close> is
  neither above it nor below it, so the first two tests fail and the third one answers
  with the message of the medium tier, not with that of the high tier.
\<close>

theorem C1_high_threshold_is_medium:
  "snd (getMLRiskScore (\<lambda>request. Inr (scoringResult 0.028924102)) mlFormattedDate params) =
     Inr ''Client has a medium probability of a HIV positive test result. Testing is recommended''"
  by (simp add: getMLRiskScore_settles thenResult_scoringResult highRiskThreshold_def
      mediumRiskThreshold_def lowRiskThreshold_def)

text \<open>The other two thresholds resolve to the lower tier, as C1 says.\<close>

lemma lower_thresholds:
  "thenResult (scoringResult 0.010638781) =
     Inr ''Client has a medium probability of a HIV positive test result. Testing is recommended''"
  "thenResult (scoringResult 0.002625179) =
     Inr ''Client has a low probability of a HIV positive test result. Testing may not be recommended''"
  by (simp_all add: thenResult_scoringResult highRiskThreshold_def
      mediumRiskThreshold_def lowRiskThreshold_def)

text \<open>
  Claim C2. The body of the request that \<open>getMLRiskScore\<close> sends is the same for any
  two parameter sequences, dates and endpoints: it is the sample payload, whatever the
  encoded object and the model configuration are, with the date 2023-03-15 and 168
  variables.
\<close>

theorem C2_fixed_payload:
  "body (fst (getMLRiskScore endpoint mlFormattedDate params)) =
     body (fst (getMLRiskScore endpoint' mlFormattedDate' params')) \<and>
   body (fst (getMLRiskScore endpoint mlFormattedDate params)) =
     mlScoringRequestPayload pv configs \<and>
   payloadModelConfigs (body (fst (getMLRiskScore endpoint mlFormattedDate params))) =
     \<lparr> modelId = ''hts_xgb_1211_jan_2023'', encounterDate = ''2023-03-15'',
       facilityId = '''', debug = ''true'' \<rparr> \<and>
   length (variableValues (body (fst (getMLRiskScore endpoint mlFormattedDate params)))) = 168"
  by (simp add: getMLRiskScore_def Let_def scoringRequest_def mlScoringRequestPayload_def)

text \<open>
  Claim C3, as the code has it. The probability 0.03 gives the message of the very
  high tier, 0.01 and 0.005 give the message of the medium tier (0.01 is below the
  medium threshold 0.010638781), and 0.001 gives the message of the low tier.
\<close>

theorem C3_scenarios:
  "snd (getMLRiskScore (\<lambda>request. Inr (scoringResult 0.03)) mlFormattedDate params) =
     Inr ''Client has a very high probability of a HIV positive test result. Testing is strongly recommended'' \<and>
   snd (getMLRiskScore (\<lambda>request. Inr (scoringResult 0.01)) mlFormattedDate params) =
     Inr ''Client has a medium probability of a HIV positive test result. Testing is recommended'' \<and>
   snd (getMLRiskScore (\<lambda>request. Inr (scoringResult 0.005)) mlFormattedDate params) =
     Inr ''Client has a medium probability of a HIV positive test result. Testing is recommended'' \<and>
   snd (getMLRiskScore (\<lambda>request. Inr (scoringResult 0.001)) mlFormattedDate params) =
     Inr ''Client has a low probability of a HIV positive test result. Testing may not be recommended''"
  by (simp add: getMLRiskScore_settles thenResult_scoringResult highRiskThreshold_def
      mediumRiskThreshold_def lowRiskThreshold_def)

text \<open>
  Counterexample to C3 as stated: for the probability 0.01 the answer is not the message
  of the high tier.
\<close>

theorem C3_probability_001_counterexample:
  "snd (getMLRiskScore (\<lambda>request. Inr (scoringResult 0.01)) ''2023-03-15'' []) \<noteq>
     Inr ''Client has a high probability of a HIV positive test result. Testing is strongly recommended''"
  by (simp add: getMLRiskScore_settles thenResult_scoringResult highRiskThreshold_def
      mediumRiskThreshold_def lowRiskThreshold_def)

text \<open>
  Claim C4. When the endpoint answers with a document in which
  \<open>result?.result?.predictions\<close> reads undefined, the promise of \<open>getMLRiskScore\<close> is
  fulfilled with \<open>No results found\<close>; it is not rejected.
\<close>

theorem C4_no_predictions:
  "endpoint (scoringRequest mlFormattedDate params) = Inr result \<Longrightarrow>
   predictions_of result = None \<Longrightarrow>
   snd (getMLRiskScore endpoint mlFormattedDate params) = Inr ''No results found''"
  by (simp add: getMLRiskScore_settles thenResult_def)

text \<open>Witness of C4: the response body \<open>{}\<close>.\<close>

theorem C4_no_predictions_witness:
  "predictions_of (JsonObj []) = None \<and>
   snd (getMLRiskScore (\<lambda>request. Inr (JsonObj [])) ''2023-03-15'' []) =
     Inr ''No results found''"
proof -
  have a: "(\<lambda>request. Inr (JsonObj [])) (scoringRequest ''2023-03-15'' []) = Inr (JsonObj [])"
    by simp
  have b: "predictions_of (JsonObj []) = None"
    by (simp add: predictions_of_def nullish_def)
  from b C4_no_predictions [OF a b] show ?thesis
    by simp
qed

end
